theory Spec2Isabelle
  imports Main
begin

section \<open>Syntax tree nodes\<close>

text \<open>
  A node of the syntax tree is an object with a discriminant field \<open>type\<close>, a start and an
  end offset, and the fields of its variant. The functions of \<open>lval.js\<close> dispatch on
  thirteen discriminants; every other one (literals, calls, ...) takes the \<open>default\<close>
  branch of each \<open>switch\<close> and is the constructor \<open>OtherNode\<close>. Only the fields that
  \<open>lval.js\<close> reads or writes are kept, and a child field is present in every node of its
  variant, as the node types of the parser declare it. An element of an array literal or
  pattern may be absent (a hole): element lists hold \<open>node option\<close>.

  Retagging in place (\<open>node.type = "ObjectPattern"\<close>) keeps every field of the object, so
  the retagged node is the other constructor applied to the same fields;
  \<open>delete node.operator\<close> is the step from the three fields of an \<open>AssignmentExpression\<close>
  to the two of an \<open>AssignmentPattern\<close>.
\<close>

datatype node =
    Identifier (start: nat) (nend: nat) (name: string)
  | PrivateName (start: nat) (nend: nat) (name: string)
  | ObjectPattern (start: nat) (nend: nat) (properties: "node list")
  | ArrayPattern (start: nat) (nend: nat) (elements: "node option list")
  | AssignmentPattern (start: nat) (nend: nat) (left: node) (right: node)
  | RestElement (start: nat) (nend: nat) (argument: node)
  | ObjectExpression (start: nat) (nend: nat) (properties: "node list")
  | ObjectProperty (start: nat) (nend: nat) (key: node) (propValue: node)
  | ObjectMethod (start: nat) (nend: nat) (kind: string) (key: node)
  | SpreadElement (start: nat) (nend: nat) (argument: node)
  | ArrayExpression (start: nat) (nend: nat) (elements: "node option list")
  | AssignmentExpression (start: nat) (nend: nat) (operator: string) (left: node) (right: node)
  | MemberExpression (start: nat) (nend: nat)
  | OtherNode (start: nat) (nend: nat)

text \<open>The pattern family of the data model: the six discriminants a pattern tree is made of.\<close>

fun patternFamily :: "node \<Rightarrow> bool" where
  "patternFamily (Identifier s e x) = True"
| "patternFamily (PrivateName s e x) = True"
| "patternFamily (ObjectPattern s e ps) = True"
| "patternFamily (ArrayPattern s e es) = True"
| "patternFamily (AssignmentPattern s e l r) = True"
| "patternFamily (RestElement s e a) = True"
| "patternFamily n = False"

section \<open>Errors and in-place mutation\<close>

text \<open>
  Modelled from the spec: the error channel (\<open>raise(position, message)\<close> and
  \<open>unexpected(position)\<close>, defined outside \<open>lval.js\<close>) is fatal for the parse: both throw,
  and nothing in \<open>lval.js\<close> catches. A call therefore either returns or throws, and since
  the tree is mutated in place, the tree as it stands at that moment is part of either
  outcome: \<open>Thrown err t\<close> is a throw of \<open>err\<close> that leaves the tree \<open>t\<close> behind.
\<close>

datatype error = SyntaxError nat string | UnexpectedToken nat

datatype 'a outcome = Returned 'a | Thrown error 'a

definition raise :: "nat \<Rightarrow> string \<Rightarrow> 'a \<Rightarrow> 'a outcome" where
  "raise pos message st = Thrown (SyntaxError pos message) st"

definition unexpected :: "nat \<Rightarrow> 'a \<Rightarrow> 'a outcome" where
  "unexpected pos st = Thrown (UnexpectedToken pos) st"

text \<open>The mutated child seen from its parent: \<open>inState f\<close> puts the child's tree back.\<close>

fun inState :: "('a \<Rightarrow> 'b) \<Rightarrow> 'a outcome \<Rightarrow> 'b outcome" where
  "inState f (Returned x) = Returned (f x)"
| "inState f (Thrown err x) = Thrown err (f x)"

section \<open>PatternConverter: toAssignable and toAssignableList\<close>

text \<open>The message of the \<open>default\<close> branch; the empty string is falsy in JavaScript.\<close>

definition invalidLeftHandSide :: "string \<Rightarrow> string" where
  "invalidLeftHandSide contextDescription =
     ''Invalid left-hand side'' @
       (if contextDescription \<noteq> [] then '' in '' @ contextDescription else ''expression'')"

text \<open>Sizes of the children the recursion descends into (for the termination proofs).\<close>

lemma size_last_element:
  "xs \<noteq> [] \<Longrightarrow> last xs = Some n \<Longrightarrow> size n < size_list (size_option size) xs"
  by (induction xs) (auto split: if_splits)

lemma size_butlast_elements:
  "xs \<noteq> [] \<Longrightarrow> size_list f (butlast xs) < size_list f xs"
  by (induction xs) auto

lemma size_argument: "is_SpreadElement n \<Longrightarrow> size (argument n) < size n"
  by (cases n) auto

lemma size_propValue: "is_ObjectProperty n \<Longrightarrow> size (propValue n) < size n"
  by (cases n) auto

lemma size_last_argument:
  "xs \<noteq> [] \<Longrightarrow> last xs = Some n \<Longrightarrow> is_SpreadElement n \<Longrightarrow>
     size (argument n) < size_list (size_option size) xs"
  using size_last_element [of xs n] size_argument [of n] by simp

text \<open>
  \<open>toAssignableNode\<close> is the \<open>switch\<close> of \<open>toAssignable\<close> on a present node,
  \<open>toAssignableProperties\<close> its loop over the properties of an object expression.
  \<open>toAssignableList\<close> handles the last element first and then runs its loop,
  \<open>toAssignableElements\<close>, over the first \<open>end\<close> elements: all of them, or all but the
  last when the last one was a rest or spread element.
\<close>

function (sequential)
      toAssignableNode :: "node \<Rightarrow> bool \<Rightarrow> string \<Rightarrow> node outcome"
  and toAssignableProperties :: "node list \<Rightarrow> bool \<Rightarrow> node list outcome"
  and toAssignableList :: "node option list \<Rightarrow> bool \<Rightarrow> string \<Rightarrow> node option list outcome"
  and toAssignableElements :: "node option list \<Rightarrow> bool \<Rightarrow> string \<Rightarrow> node option list outcome"
where
  "toAssignableNode (Identifier s e x) isBinding contextDescription =
     Returned (Identifier s e x)"
| "toAssignableNode (PrivateName s e x) isBinding contextDescription =
     Returned (PrivateName s e x)"
| "toAssignableNode (ObjectPattern s e ps) isBinding contextDescription =
     Returned (ObjectPattern s e ps)"
| "toAssignableNode (ArrayPattern s e es) isBinding contextDescription =
     Returned (ArrayPattern s e es)"
| "toAssignableNode (AssignmentPattern s e l r) isBinding contextDescription =
     Returned (AssignmentPattern s e l r)"
| "toAssignableNode (ObjectExpression s e ps) isBinding contextDescription =
     inState (ObjectPattern s e) (toAssignableProperties ps isBinding)"
| "toAssignableNode (ObjectProperty s e k v) isBinding contextDescription =
     inState (ObjectProperty s e k) (toAssignableNode v isBinding contextDescription)"
| "toAssignableNode (SpreadElement s e arg) isBinding contextDescription =
     inState (RestElement s e) (toAssignableNode arg isBinding contextDescription)"
| "toAssignableNode (ArrayExpression s e es) isBinding contextDescription =
     inState (ArrayPattern s e) (toAssignableList es isBinding contextDescription)"
| "toAssignableNode (AssignmentExpression s e op l r) isBinding contextDescription =
     (if op = ''=''
      then Returned (AssignmentPattern s e l r)
      else raise (nend l) ''Only '=' operator can be used for specifying default value.''
             (AssignmentExpression s e op l r))"
| "toAssignableNode (MemberExpression s e) isBinding contextDescription =
     (if \<not> isBinding then Returned (MemberExpression s e)
      else raise s (invalidLeftHandSide contextDescription) (MemberExpression s e))"
| "toAssignableNode node isBinding contextDescription =
     raise (start node) (invalidLeftHandSide contextDescription) node"
| "toAssignableProperties [] isBinding = Returned []"
| "toAssignableProperties (prop # rest) isBinding =
     (if is_ObjectMethod prop then
        (if kind prop = ''get'' \<or> kind prop = ''set''
         then raise (start (key prop)) ''Object pattern can't contain getter or setter''
                (prop # rest)
         else raise (start (key prop)) ''Object pattern can't contain methods''
                (prop # rest))
      else
        (case toAssignableNode prop isBinding ''object destructuring pattern'' of
           Thrown err prop' \<Rightarrow> Thrown err (prop' # rest)
         | Returned prop' \<Rightarrow>
             inState ((#) prop') (toAssignableProperties rest isBinding)))"
| "toAssignableList exprList isBinding contextDescription =
     (if exprList \<noteq> [] then
        (case last exprList of
           None \<Rightarrow> toAssignableElements exprList isBinding contextDescription
         | Some lst \<Rightarrow>
             if is_RestElement lst then
               inState (\<lambda>converted. converted @ [Some lst])
                 (toAssignableElements (butlast exprList) isBinding contextDescription)
             else if is_SpreadElement lst then
               (case toAssignableNode (argument lst) isBinding contextDescription of
                  Thrown err arg \<Rightarrow>
                    Thrown err
                      (butlast exprList @ [Some (RestElement (start lst) (nend lst) arg)])
                | Returned arg \<Rightarrow>
                    if \<not> is_Identifier arg \<and> \<not> is_MemberExpression arg
                         \<and> \<not> is_ArrayPattern arg
                    then unexpected (start arg)
                           (butlast exprList @ [Some (RestElement (start lst) (nend lst) arg)])
                    else inState
                           (\<lambda>converted.
                              converted @ [Some (RestElement (start lst) (nend lst) arg)])
                           (toAssignableElements (butlast exprList) isBinding
                              contextDescription))
             else toAssignableElements exprList isBinding contextDescription)
      else toAssignableElements exprList isBinding contextDescription)"
| "toAssignableElements [] isBinding contextDescription = Returned []"
| "toAssignableElements (elt # rest) isBinding contextDescription =
     (case elt of
        None \<Rightarrow> inState ((#) elt) (toAssignableElements rest isBinding contextDescription)
      | Some n \<Rightarrow>
          if is_SpreadElement n
          then raise (start n)
                 ''The rest element has to be the last element when destructuring''
                 (elt # rest)
          else
            (case toAssignableNode n isBinding contextDescription of
               Thrown err n' \<Rightarrow> Thrown err (Some n' # rest)
             | Returned n' \<Rightarrow>
                 inState ((#) (Some n'))
                   (toAssignableElements rest isBinding contextDescription)))"
  by pat_completeness auto

termination
  by (relation "measure (\<lambda>call. case call of
            Inl (Inl (n, _, _)) \<Rightarrow> 2 * size n
          | Inl (Inr (ps, _)) \<Rightarrow> 2 * size_list size ps
          | Inr (Inl (es, _, _)) \<Rightarrow> 2 * size_list (size_option size) es + 1
          | Inr (Inr (es, _, _)) \<Rightarrow> 2 * size_list (size_option size) es)")
     (auto dest: size_last_argument simp: size_butlast_elements less_Suc_eq_le
           intro: less_imp_le)

text \<open>
  \<open>toAssignable\<close> itself: an absent node passes through (\<open>if (node)\<close>), a present one goes
  through the \<open>switch\<close>; the same object is returned.
\<close>

definition toAssignable :: "node option \<Rightarrow> bool \<Rightarrow> string \<Rightarrow> node option outcome" where
  "toAssignable node isBinding contextDescription =
     (case node of
        None \<Rightarrow> Returned None
      | Some n \<Rightarrow> inState Some (toAssignableNode n isBinding contextDescription))"

text \<open>The test of the loop of \<open>toAssignableList\<close>: \<open>elt && elt.type === "SpreadElement"\<close>.\<close>

definition isSpreadElement :: "node option \<Rightarrow> bool" where
  "isSpreadElement elt = (case elt of None \<Rightarrow> False | Some n \<Rightarrow> is_SpreadElement n)"

section \<open>LValValidator: checkLVal\<close>

text \<open>
  The clash map is an object used as a dictionary from keys to flags, and the parameter
  itself may be absent. \<open>checkLVal\<close> neither creates the object nor asks whether a key is
  its own: the read \<open>checkClashes[key]\<close> also sees what the object inherits from its
  prototype. The model keeps the own properties, which \<open>checkLVal\<close> writes, and for every
  key whether the prototype gives it a truthy value; an object without prototype (the
  \<open>Object.create(null)\<close> of the comment in \<open>checkLVal\<close>) inherits nothing.
\<close>

record clashes =
  own :: "string \<Rightarrow> bool option"
  inherited :: "string \<Rightarrow> bool"

text \<open>The read \<open>checkClashes[key]\<close>, as a condition: an own flag hides an inherited value.\<close>

definition seen :: "clashes \<Rightarrow> string \<Rightarrow> bool" where
  "seen m ky = (case own m ky of Some flag \<Rightarrow> flag | None \<Rightarrow> inherited m ky)"

text \<open>
  The write \<open>checkClashes[key] = true\<close>. It is reached only where the read was falsy, and
  makes an own property.
\<close>

definition markSeen :: "clashes \<Rightarrow> string \<Rightarrow> clashes" where
  "markSeen m ky = m\<lparr>own := (own m)(ky \<mapsto> True)\<rparr>"

text \<open>
  The two maps a caller can start from: \<open>Object.create(null)\<close>, and the object literal
  \<open>{}\<close>, which inherits the properties of \<open>Object.prototype\<close>. These are functions, and
  \<open>__proto__\<close> reads the prototype object itself: all of them are truthy.
\<close>

definition objectPrototype :: "string \<Rightarrow> bool" where
  "objectPrototype ky =
     (ky \<in> set [''constructor'', ''hasOwnProperty'', ''isPrototypeOf'',
                 ''propertyIsEnumerable'', ''toLocaleString'', ''toString'', ''valueOf'',
                 ''__proto__'', ''__defineGetter__'', ''__defineSetter__'',
                 ''__lookupGetter__'', ''__lookupSetter__''])"

definition createNull :: clashes where
  "createNull = \<lparr>own = Map.empty, inherited = (\<lambda>ky. False)\<rparr>"

definition objectLiteral :: clashes where
  "objectLiteral = \<lparr>own = Map.empty, inherited = objectPrototype\<rparr>"

text \<open>
  \<open>checkReservedWord\<close> is only declared in \<open>lval.js\<close> and defined elsewhere: it is a
  parameter of the model, a function that either returns (\<open>None\<close>) or throws the error
  it gives.
\<close>

type_synonym reservedWordCheck = "string \<Rightarrow> nat \<Rightarrow> bool \<Rightarrow> bool \<Rightarrow> error option"

text \<open>The shared body of the cases \<open>"PrivateName"\<close> and \<open>"Identifier"\<close>.\<close>

definition checkLValName ::
  "reservedWordCheck \<Rightarrow> nat \<Rightarrow> string \<Rightarrow> clashes option \<Rightarrow> clashes option outcome" where
  "checkLValName checkReservedWord pos nm checkClashes =
     (case checkReservedWord nm pos False True of
        Some err \<Rightarrow> Thrown err checkClashes
      | None \<Rightarrow>
          (case checkClashes of
             None \<Rightarrow> Returned None
           | Some m \<Rightarrow>
               (let ky = ''_'' @ nm in
                  if seen m ky
                  then raise pos ''Argument name clash in strict mode'' checkClashes
                  else Returned (Some (markSeen m ky)))))"

function (sequential)
      checkLVal ::
        "reservedWordCheck \<Rightarrow> node \<Rightarrow> bool \<Rightarrow> clashes option \<Rightarrow> string
           \<Rightarrow> clashes option outcome"
  and checkLValProperties ::
        "reservedWordCheck \<Rightarrow> node list \<Rightarrow> bool \<Rightarrow> clashes option \<Rightarrow> clashes option outcome"
  and checkLValElements ::
        "reservedWordCheck \<Rightarrow> node option list \<Rightarrow> bool \<Rightarrow> clashes option
           \<Rightarrow> clashes option outcome"
where
  "checkLVal crw (PrivateName s e x) isBinding checkClashes contextDescription =
     checkLValName crw s x checkClashes"
| "checkLVal crw (Identifier s e x) isBinding checkClashes contextDescription =
     checkLValName crw s x checkClashes"
| "checkLVal crw (MemberExpression s e) isBinding checkClashes contextDescription =
     (if isBinding
      then raise s ((if isBinding then ''Binding'' else ''Assigning to'') @ '' member expression'')
             checkClashes
      else Returned checkClashes)"
| "checkLVal crw (ObjectPattern s e ps) isBinding checkClashes contextDescription =
     checkLValProperties crw ps isBinding checkClashes"
| "checkLVal crw (ArrayPattern s e es) isBinding checkClashes contextDescription =
     checkLValElements crw es isBinding checkClashes"
| "checkLVal crw (AssignmentPattern s e l r) isBinding checkClashes contextDescription =
     checkLVal crw l isBinding checkClashes ''assignment pattern''"
| "checkLVal crw (RestElement s e arg) isBinding checkClashes contextDescription =
     checkLVal crw arg isBinding checkClashes ''rest element''"
| "checkLVal crw expr isBinding checkClashes contextDescription =
     raise (start expr)
       ((if isBinding then ''Binding invalid'' else ''Invalid'') @ '' left-hand side'' @
          (if contextDescription \<noteq> [] then '' in '' @ contextDescription else ''expression''))
       checkClashes"
| "checkLValProperties crw [] isBinding checkClashes = Returned checkClashes"
| "checkLValProperties crw (prop # rest) isBinding checkClashes =
     (case checkLVal crw (if is_ObjectProperty prop then propValue prop else prop) isBinding
             checkClashes ''object destructuring pattern'' of
        Thrown err marked \<Rightarrow> Thrown err marked
      | Returned marked \<Rightarrow> checkLValProperties crw rest isBinding marked)"
| "checkLValElements crw [] isBinding checkClashes = Returned checkClashes"
| "checkLValElements crw (elem # rest) isBinding checkClashes =
     (case elem of
        None \<Rightarrow> checkLValElements crw rest isBinding checkClashes
      | Some n \<Rightarrow>
          (case checkLVal crw n isBinding checkClashes ''array destructuring pattern'' of
             Thrown err marked \<Rightarrow> Thrown err marked
           | Returned marked \<Rightarrow> checkLValElements crw rest isBinding marked))"
  by pat_completeness auto

termination
  by (relation "measure (\<lambda>call. case call of
            Inl (_, n, _, _, _) \<Rightarrow> size n
          | Inr (Inl (_, ps, _, _)) \<Rightarrow> size_list size ps
          | Inr (Inr (_, es, _, _)) \<Rightarrow> size_list (size_option size) es)")
     (auto simp: less_Suc_eq_le intro: less_imp_le dest: size_propValue)

section \<open>BindingParser: the yield keyword as a binding name\<close>

text \<open>
  Modelled from the spec: the token kinds (\<open>tt\<close>) and the tokenizer's \<open>match(kind)\<close>, which
  tells whether the current token is of that kind, are defined outside \<open>lval.js\<close>. Of the
  parser state only the fields read here are kept.
\<close>

datatype TokenType = T_yield | T_name | T_bracketL | T_bracketR | T_braceL | T_braceR
  | T_comma | T_ellipsis | T_eq | T_at | T_other

record state =
  tokType :: TokenType
  strict :: bool
  inGenerator :: bool

definition match :: "state \<Rightarrow> TokenType \<Rightarrow> bool" where
  "match st t = (tokType st = t)"

definition shouldAllowYieldIdentifier :: "state \<Rightarrow> bool" where
  "shouldAllowYieldIdentifier st = (match st T_yield \<and> \<not> strict st \<and> \<not> inGenerator st)"

text \<open>
  \<open>parseIdentifier(liberal)\<close> is declared in \<open>lval.js\<close> and defined elsewhere: a parameter,
  called with the flag and the parser state.
\<close>

definition parseBindingIdentifier :: "(bool \<Rightarrow> state \<Rightarrow> 'r) \<Rightarrow> state \<Rightarrow> 'r" where
  "parseBindingIdentifier parseIdentifier st = parseIdentifier (shouldAllowYieldIdentifier st) st"

section \<open>Reachable nodes and visited nodes\<close>

text \<open>The nodes reachable from a node through the child fields of the data model.\<close>

fun reachable :: "node \<Rightarrow> node list"
  and reachableList :: "node list \<Rightarrow> node list"
  and reachableElements :: "node option list \<Rightarrow> node list"
where
  "reachable (ObjectPattern s e ps) = ObjectPattern s e ps # reachableList ps"
| "reachable (ArrayPattern s e es) = ArrayPattern s e es # reachableElements es"
| "reachable (AssignmentPattern s e l r) = AssignmentPattern s e l r # reachable l @ reachable r"
| "reachable (RestElement s e a) = RestElement s e a # reachable a"
| "reachable (ObjectExpression s e ps) = ObjectExpression s e ps # reachableList ps"
| "reachable (ObjectProperty s e k v) = ObjectProperty s e k v # reachable k @ reachable v"
| "reachable (ObjectMethod s e k ky) = ObjectMethod s e k ky # reachable ky"
| "reachable (SpreadElement s e a) = SpreadElement s e a # reachable a"
| "reachable (ArrayExpression s e es) = ArrayExpression s e es # reachableElements es"
| "reachable (AssignmentExpression s e op l r) =
     AssignmentExpression s e op l r # reachable l @ reachable r"
| "reachable n = [n]"
| "reachableList [] = []"
| "reachableList (n # ns) = reachable n @ reachableList ns"
| "reachableElements [] = []"
| "reachableElements (None # es) = reachableElements es"
| "reachableElements (Some n # es) = reachable n @ reachableElements es"

text \<open>
  The nodes of the converted tree at the places the conversion visits, read off the
  recursion of \<open>toAssignable\<close> on the tree it was given: the node itself, the properties
  of an object expression, the value of an object property, the argument of a spread
  element and the elements of an array expression. The first argument is the tree before
  the conversion, the second the tree after it.
\<close>

fun visited :: "node \<Rightarrow> node \<Rightarrow> node list"
  and visitedProperties :: "node list \<Rightarrow> node list \<Rightarrow> node list"
  and visitedElements :: "node option list \<Rightarrow> node option list \<Rightarrow> node list"
where
  "visited (ObjectExpression s e ps) out =
     out # (case out of ObjectPattern s' e' qs \<Rightarrow> visitedProperties ps qs | _ \<Rightarrow> [])"
| "visited (ObjectProperty s e k v) out =
     out # (case out of ObjectProperty s' e' k' v' \<Rightarrow> visited v v' | _ \<Rightarrow> [])"
| "visited (SpreadElement s e arg) out =
     out # (case out of RestElement s' e' arg' \<Rightarrow> visited arg arg' | _ \<Rightarrow> [])"
| "visited (ArrayExpression s e es) out =
     out # (case out of ArrayPattern s' e' outs \<Rightarrow> visitedElements es outs | _ \<Rightarrow> [])"
| "visited n out = [out]"
| "visitedProperties (p # ps) (q # qs) = visited p q @ visitedProperties ps qs"
| "visitedProperties ps qs = []"
| "visitedElements (Some n # es) (Some out # outs) = visited n out @ visitedElements es outs"
| "visitedElements (elt # es) (out # outs) = visitedElements es outs"
| "visitedElements es outs = []"

text \<open>
  The discriminants found at visited places: the pattern family, ObjectProperty (which the
  conversion leaves as it is), and MemberExpression outside binding contexts.
\<close>

definition assignableShape :: "bool \<Rightarrow> node \<Rightarrow> bool" where
  "assignableShape isBinding n =
     (patternFamily n \<or> is_ObjectProperty n \<or> (is_MemberExpression n \<and> \<not> isBinding))"

text \<open>
  The discriminants the invariant of the data model allows after a conversion: the pattern
  family, and MemberExpression outside binding contexts.
\<close>

definition claimedShape :: "bool \<Rightarrow> node \<Rightarrow> bool" where
  "claimedShape isBinding n = (patternFamily n \<or> (is_MemberExpression n \<and> \<not> isBinding))"

text \<open>
  What a successful conversion makes of a tree, in the words of the table of
  \<open>toAssignable\<close>: an object expression, a spread element, an array expression and an
  assignment expression are retagged (the last one losing its operator), the conversion
  goes on in the properties, in the value of an object property, in the argument of a
  spread element and in the elements, and every other node, with all that is below it,
  stays as it is.
\<close>

fun retagged :: "node \<Rightarrow> node" where
  "retagged (ObjectExpression s e ps) = ObjectPattern s e (map retagged ps)"
| "retagged (ObjectProperty s e k v) = ObjectProperty s e k (retagged v)"
| "retagged (SpreadElement s e arg) = RestElement s e (retagged arg)"
| "retagged (ArrayExpression s e es) = ArrayPattern s e (map (map_option retagged) es)"
| "retagged (AssignmentExpression s e op l r) = AssignmentPattern s e l r"
| "retagged n = n"

text \<open>
  The handling of the last element of a list by \<open>toAssignableList\<close>, when it succeeds:
  \<open>lastHandled isBinding contextDescription lst lst'\<close> says that it does, and leaves
  \<open>lst'\<close>. A last element that is not a spread is left as it is at this stage; a spread
  is retagged around its converted argument, which has to be an Identifier, a
  MemberExpression or an ArrayPattern.
\<close>

definition lastHandled :: "bool \<Rightarrow> string \<Rightarrow> node option \<Rightarrow> node option \<Rightarrow> bool" where
  "lastHandled isBinding contextDescription lst lst' =
     (case lst of
        None \<Rightarrow> lst' = None
      | Some n \<Rightarrow>
          if is_SpreadElement n then
            (case toAssignable (Some (argument n)) isBinding contextDescription of
               Returned (Some arg) \<Rightarrow>
                 (is_Identifier arg \<or> is_MemberExpression arg \<or> is_ArrayPattern arg)
                 \<and> lst' = Some (RestElement (start n) (nend n) arg)
             | _ \<Rightarrow> False)
          else lst' = lst)"

section \<open>Outcomes of the loop over the properties\<close>

lemma inState_Returned_iff: "inState f r = Returned y \<longleftrightarrow> (\<exists>x. r = Returned x \<and> y = f x)"
  by (cases r) auto

lemma inState_Thrown_iff: "inState f r = Thrown err y \<longleftrightarrow> (\<exists>x. r = Thrown err x \<and> y = f x)"
  by (cases r) auto

lemma toAssignable_Some_Returned:
  "toAssignable (Some n) ib ctx = Returned r \<longleftrightarrow> (\<exists>n'. toAssignableNode n ib ctx = Returned n' \<and> r = Some n')"
  by (auto simp: toAssignable_def inState_Returned_iff)

lemma toAssignable_Some_Thrown:
  "toAssignable (Some n) ib ctx = Thrown err r \<longleftrightarrow> (\<exists>n'. toAssignableNode n ib ctx = Thrown err n' \<and> r = Some n')"
  by (auto simp: toAssignable_def inState_Thrown_iff)

lemma toAssignableProperties_append:
  "toAssignableProperties pre ib = Returned pre' \<Longrightarrow>
     toAssignableProperties (pre @ rest) ib = inState ((@) pre') (toAssignableProperties rest ib)"
proof (induction pre arbitrary: pre')
  case Nil
  then show ?case by (cases "toAssignableProperties rest ib") auto
next
  case (Cons p ps)
  from Cons.prems obtain p' ps' where
    p: "\<not> is_ObjectMethod p" "toAssignableNode p ib ''object destructuring pattern'' = Returned p'"
    and ps: "toAssignableProperties ps ib = Returned ps'" and d: "pre' = p' # ps'"
    by (auto simp: raise_def inState_Returned_iff split: if_splits outcome.splits)
  from Cons.IH [OF ps] p d show ?case
    by (cases "toAssignableProperties rest ib") auto
qed

lemma toAssignableProperties_Returned_iff:
  "toAssignableProperties ps ib = Returned ps' \<longleftrightarrow>
     list_all2 (\<lambda>p p'. \<not> is_ObjectMethod p \<and>
        toAssignableNode p ib ''object destructuring pattern'' = Returned p') ps ps'"
proof (induction ps arbitrary: ps')
  case Nil
  then show ?case by auto
next
  case (Cons p ps)
  show ?case
    by (cases ps')
       (auto simp: raise_def inState_Returned_iff Cons.IH split: outcome.splits)
qed

lemma toAssignableProperties_length:
  "toAssignableProperties ps ib = Thrown err ps' \<Longrightarrow> length ps' = length ps"
  apply (induction ps arbitrary: ps')
   apply simp
  apply (auto simp: raise_def inState_Thrown_iff split: if_splits outcome.splits)
  done

lemma toAssignableProperties_method_throws:
  "\<exists>m\<in>set ps. is_ObjectMethod m \<Longrightarrow> \<exists>err ps'. toAssignableProperties ps ib = Thrown err ps'"
proof (induction ps)
  case Nil
  then show ?case by simp
next
  case (Cons p ps)
  show ?case
  proof (cases "is_ObjectMethod p")
    case True
    then show ?thesis by (simp add: raise_def)
  next
    case False
    with Cons.prems have "\<exists>m\<in>set ps. is_ObjectMethod m" by auto
    from Cons.IH [OF this] obtain err ps' where "toAssignableProperties ps ib = Thrown err ps'"
      by blast
    with False show ?thesis
      by (cases "toAssignableNode p ib ''object destructuring pattern''") auto
  qed
qed

section \<open>Outcomes of the loop over the elements\<close>

lemma SpreadElement_not_RestElement: "is_SpreadElement n \<Longrightarrow> \<not> is_RestElement n"
  by (cases n) auto

lemma toAssignableElements_append:
  "toAssignableElements pre ib ctx = Returned pre' \<Longrightarrow>
     toAssignableElements (pre @ post) ib ctx
       = inState ((@) pre') (toAssignableElements post ib ctx)"
proof (induction pre arbitrary: pre')
  case Nil
  then show ?case by (cases "toAssignableElements post ib ctx") auto
next
  case (Cons x xs)
  show ?case
  proof (cases x)
    case None
    with Cons.prems obtain xs' where xs: "toAssignableElements xs ib ctx = Returned xs'"
      and p: "pre' = None # xs'"
      by (auto simp: inState_Returned_iff)
    from Cons.IH [OF xs] None p show ?thesis
      by (cases "toAssignableElements post ib ctx") auto
  next
    case (Some n)
    with Cons.prems obtain n' xs' where n: "\<not> is_SpreadElement n"
      "toAssignableNode n ib ctx = Returned n'"
      and xs: "toAssignableElements xs ib ctx = Returned xs'" and p: "pre' = Some n' # xs'"
      by (auto simp: raise_def inState_Returned_iff split: if_splits outcome.splits)
    from Cons.IH [OF xs] Some n p show ?thesis
      by (cases "toAssignableElements post ib ctx") auto
  qed
qed

lemma toAssignableElements_Returned_iff:
  "toAssignableElements xs ib ctx = Returned ys \<longleftrightarrow>
     list_all2 (\<lambda>x y. \<not> isSpreadElement x \<and> toAssignable x ib ctx = Returned y) xs ys"
proof (induction xs arbitrary: ys)
  case Nil
  then show ?case by auto
next
  case (Cons x xs)
  show ?case
  proof (cases x)
    case None
    then show ?thesis
      by (cases ys)
         (auto simp: isSpreadElement_def toAssignable_def inState_Returned_iff Cons.IH)
  next
    case (Some n)
    then show ?thesis
      by (cases ys)
         (auto simp: isSpreadElement_def toAssignable_def raise_def inState_Returned_iff
               Cons.IH split: outcome.splits)
  qed
qed

lemma toAssignableElements_spread_throws:
  "Some sp \<in> set xs \<Longrightarrow> is_SpreadElement sp \<Longrightarrow>
     \<exists>err st. toAssignableElements xs ib ctx = Thrown err st"
proof (induction xs)
  case Nil
  then show ?case by simp
next
  case (Cons x xs)
  show ?case
  proof (cases "x = Some sp")
    case True
    with Cons.prems show ?thesis by (simp add: raise_def)
  next
    case False
    with Cons.prems Cons.IH obtain err st where
      "toAssignableElements xs ib ctx = Thrown err st" by auto
    then show ?thesis
      by (cases x; cases "toAssignableNode (the x) ib ctx")
         (auto simp: raise_def)
  qed
qed

lemma toAssignableList_snoc:
  "toAssignableList (xs @ [l]) ib ctx =
     (case l of
        None \<Rightarrow> toAssignableElements (xs @ [l]) ib ctx
      | Some lst \<Rightarrow>
          if is_RestElement lst then
            inState (\<lambda>converted. converted @ [Some lst]) (toAssignableElements xs ib ctx)
          else if is_SpreadElement lst then
            (case toAssignableNode (argument lst) ib ctx of
               Thrown err arg \<Rightarrow>
                 Thrown err (xs @ [Some (RestElement (start lst) (nend lst) arg)])
             | Returned arg \<Rightarrow>
                 if \<not> is_Identifier arg \<and> \<not> is_MemberExpression arg \<and> \<not> is_ArrayPattern arg
                 then unexpected (start arg)
                        (xs @ [Some (RestElement (start lst) (nend lst) arg)])
                 else inState
                        (\<lambda>converted. converted @ [Some (RestElement (start lst) (nend lst) arg)])
                        (toAssignableElements xs ib ctx))
          else toAssignableElements (xs @ [l]) ib ctx)"
  by (simp split: option.splits outcome.splits)

lemma toAssignableElements_at_spread:
  assumes "list_all2 (\<lambda>x y. \<not> isSpreadElement x \<and> toAssignable x ib ctx = Returned y) pre pre'"
    and "is_SpreadElement sp"
  shows "toAssignableElements (pre @ Some sp # post) ib ctx
           = Thrown (SyntaxError (start sp)
                ''The rest element has to be the last element when destructuring'')
               (pre' @ Some sp # post)"
proof -
  from assms(1) have "toAssignableElements pre ib ctx = Returned pre'"
    by (simp add: toAssignableElements_Returned_iff)
  from toAssignableElements_append [OF this] assms(2) show ?thesis
    by (simp add: raise_def)
qed

lemma toAssignableElements_holes:
  "toAssignableElements (replicate k None) ib ctx = Returned (replicate k None)"
  by (induction k) simp_all

lemma toAssignableElements_Thrown_append:
  "toAssignableElements xs ib ctx = Thrown err st \<Longrightarrow>
     toAssignableElements (xs @ ys) ib ctx = Thrown err (st @ ys)"
proof (induction xs arbitrary: st)
  case Nil
  then show ?case by simp
next
  case (Cons x xs)
  show ?case
  proof (cases x)
    case None
    with Cons.prems obtain st' where "toAssignableElements xs ib ctx = Thrown err st'"
      and "st = None # st'"
      by (auto simp: inState_Thrown_iff)
    with Cons.IH None show ?thesis by simp
  next
    case (Some n)
    show ?thesis
    proof (cases "is_SpreadElement n")
      case True
      with Cons.prems Some show ?thesis by (auto simp: raise_def)
    next
      case False
      show ?thesis
      proof (cases "toAssignableNode n ib ctx")
        case (Returned n')
        with Cons.prems Some False obtain st' where
          "toAssignableElements xs ib ctx = Thrown err st'" and "st = Some n' # st'"
          by (auto simp: inState_Thrown_iff)
        with Cons.IH Some False Returned show ?thesis by simp
      next
        case (Thrown e n')
        with Cons.prems Some False show ?thesis by auto
      qed
    qed
  qed
qed

lemma toAssignableElements_at_failure:
  assumes "list_all2 (\<lambda>x y. \<not> isSpreadElement x \<and> toAssignable x ib ctx = Returned y) pre pre'"
    and "\<not> isSpreadElement x" and "toAssignable x ib ctx = Thrown err x'"
  shows "toAssignableElements (pre @ x # post) ib ctx = Thrown err (pre' @ x' # post)"
proof -
  from assms(1) have "toAssignableElements pre ib ctx = Returned pre'"
    by (simp add: toAssignableElements_Returned_iff)
  then have step: "toAssignableElements (pre @ x # post) ib ctx
                     = inState ((@) pre') (toAssignableElements (x # post) ib ctx)"
    by (rule toAssignableElements_append)
  from assms(3) obtain n n' where x: "x = Some n" "x' = Some n'"
    and n: "toAssignableNode n ib ctx = Thrown err n'"
    by (cases x) (auto simp: toAssignable_def inState_Thrown_iff)
  from assms(2) x have "\<not> is_SpreadElement n" by (simp add: isSpreadElement_def)
  with n have "toAssignableElements (x # post) ib ctx = Thrown err (x' # post)"
    unfolding x by simp
  then show ?thesis unfolding step by simp
qed

lemma toAssignableList_Thrown_before_last:
  assumes "lastHandled ib ctx l l'" and "toAssignableElements xs ib ctx = Thrown err st"
  shows "toAssignableList (xs @ [l]) ib ctx = Thrown err (st @ [l'])"
proof (cases l)
  case None
  with assms toAssignableElements_Thrown_append [OF assms(2), of "[l]"] show ?thesis
    by (simp add: toAssignableList_snoc lastHandled_def)
next
  case (Some n)
  show ?thesis
  proof (cases "is_SpreadElement n")
    case True
    from assms(1) have h: "lastHandled ib ctx (Some n) l'" unfolding Some .
    show ?thesis
    proof (cases "toAssignableNode (argument n) ib ctx")
      case (Returned arg)
      with h True have "is_Identifier arg \<or> is_MemberExpression arg \<or> is_ArrayPattern arg"
        and "l' = Some (RestElement (start n) (nend n) arg)"
        by (simp_all add: lastHandled_def toAssignable_def)
      with assms(2) True Returned show ?thesis
        unfolding Some
        by (auto simp: toAssignableList_snoc SpreadElement_not_RestElement)
    next
      case (Thrown e arg)
      with h True show ?thesis by (simp add: lastHandled_def toAssignable_def)
    qed
  next
    case False
    with assms(1) Some have "l' = l" by (simp add: lastHandled_def)
    with assms(2) Some False toAssignableElements_Thrown_append [OF assms(2), of "[l]"]
    show ?thesis
      by (auto simp: toAssignableList_snoc)
  qed
qed


section \<open>Shapes at the visited places\<close>

lemma visitedElements_append:
  "length xs = length ys \<Longrightarrow>
     visitedElements (xs @ as) (ys @ bs) = visitedElements xs ys @ visitedElements as bs"
proof (induction xs ys rule: list_induct2)
  case Nil
  then show ?case by simp
next
  case (Cons x xs y ys)
  then show ?case by (cases x; cases y) simp_all
qed

lemma toAssignableElements_length:
  "toAssignableElements xs ib ctx = Returned ys \<Longrightarrow> length ys = length xs"
  by (simp add: toAssignableElements_Returned_iff list_all2_lengthD)

lemma visited_shapes:
  "toAssignableNode n ib ctx = Returned r \<Longrightarrow> list_all (assignableShape ib) (visited n r)"
  "toAssignableProperties ps ib = Returned rs \<Longrightarrow>
     list_all (assignableShape ib) (visitedProperties ps rs)"
  "toAssignableList es ib ctx = Returned outs \<Longrightarrow>
     list_all (assignableShape ib) (visitedElements es outs)"
  "toAssignableElements es' ib ctx = Returned outs' \<Longrightarrow>
     list_all (assignableShape ib) (visitedElements es' outs')"
proof (induction n ib ctx and ps ib and es ib ctx and es' ib ctx
       arbitrary: r and rs and outs and outs'
       rule: toAssignableNode_toAssignableProperties_toAssignableList_toAssignableElements.induct)
  case (15 exprList isBinding contextDescription)
  show ?case
  proof (cases "exprList = []")
    case True
    with "15.prems" show ?thesis by simp
  next
    case False
    then have xl: "exprList = butlast exprList @ [last exprList]" by simp
    from "15.prems" have run:
      "toAssignableList (butlast exprList @ [last exprList]) isBinding contextDescription
         = Returned outs"
      using xl by simp
    show ?thesis
    proof (cases "last exprList")
      case None
      with run xl have "toAssignableElements exprList isBinding contextDescription = Returned outs"
        by (simp add: toAssignableList_snoc)
      with "15.IH"(1) False None show ?thesis by simp
    next
      case (Some lst)
      consider (rest) "is_RestElement lst"
        | (spread) "\<not> is_RestElement lst" "is_SpreadElement lst"
        | (other) "\<not> is_RestElement lst" "\<not> is_SpreadElement lst"
        by blast
      then show ?thesis
      proof cases
        case rest
        with run Some obtain ys where
          ys: "toAssignableElements (butlast exprList) isBinding contextDescription = Returned ys"
          and outs: "outs = ys @ [Some lst]"
          by (auto simp: toAssignableList_snoc inState_Returned_iff)
        from "15.IH"(2) [OF False Some rest ys]
        have "list_all (assignableShape isBinding) (visitedElements (butlast exprList) ys)" .
        moreover have "visitedElements exprList outs
                         = visitedElements (butlast exprList) ys
                             @ visitedElements [Some lst] [Some lst]"
          using visitedElements_append [OF toAssignableElements_length [OF ys, symmetric],
                  of "[Some lst]" "[Some lst]"] xl Some outs
          by simp
        moreover from rest obtain s e a0 where "lst = RestElement s e a0"
          by (cases lst) auto
        moreover have "assignableShape isBinding (RestElement s e a0)" for s e a0
          by (simp add: assignableShape_def)
        ultimately show ?thesis by simp
      next
        case spread
        with run Some obtain arg ys where
          arg: "toAssignableNode (argument lst) isBinding contextDescription = Returned arg"
          and shape: "\<not> (\<not> is_Identifier arg \<and> \<not> is_MemberExpression arg \<and> \<not> is_ArrayPattern arg)"
          and ys: "toAssignableElements (butlast exprList) isBinding contextDescription = Returned ys"
          and outs: "outs = ys @ [Some (RestElement (start lst) (nend lst) arg)]"
          by (auto simp: toAssignableList_snoc inState_Returned_iff unexpected_def
                split: outcome.splits if_splits)
        from "15.IH"(3) [OF False Some spread arg]
        have a: "list_all (assignableShape isBinding) (visited (argument lst) arg)" .
        from "15.IH"(4) [OF False Some spread arg shape ys]
        have b: "list_all (assignableShape isBinding) (visitedElements (butlast exprList) ys)" .
        have "visitedElements exprList outs
                = visitedElements (butlast exprList) ys
                    @ visitedElements [Some lst] [Some (RestElement (start lst) (nend lst) arg)]"
          using visitedElements_append [OF toAssignableElements_length [OF ys, symmetric],
                  of "[Some lst]" "[Some (RestElement (start lst) (nend lst) arg)]"]
                xl Some outs
          by simp
        moreover from spread obtain s e a0 where "lst = SpreadElement s e a0"
          by (cases lst) auto
        moreover have "assignableShape isBinding (RestElement (start lst) (nend lst) arg)"
          by (simp add: assignableShape_def)
        ultimately show ?thesis using a b by simp
      next
        case other
        with run xl Some
        have "toAssignableElements exprList isBinding contextDescription = Returned outs"
          by (simp add: toAssignableList_snoc)
        with "15.IH"(5) False Some other show ?thesis by simp
      qed
    qed
  qed
qed (auto simp: assignableShape_def raise_def inState_Returned_iff
       split: if_splits outcome.splits option.splits)

lemma returned_retagged:
  "toAssignableNode n ib ctx = Returned r \<Longrightarrow> r = retagged n"
  "toAssignableProperties ps ib = Returned rs \<Longrightarrow> rs = map retagged ps"
  "toAssignableList es ib ctx = Returned outs \<Longrightarrow> outs = map (map_option retagged) es"
  "toAssignableElements es' ib ctx = Returned outs' \<Longrightarrow> outs' = map (map_option retagged) es'"
proof (induction n ib ctx and ps ib and es ib ctx and es' ib ctx
       arbitrary: r and rs and outs and outs'
       rule: toAssignableNode_toAssignableProperties_toAssignableList_toAssignableElements.induct)
  case (15 exprList isBinding contextDescription)
  show ?case
  proof (cases "exprList = []")
    case True
    with "15.prems" show ?thesis by simp
  next
    case False
    then have xl: "exprList = butlast exprList @ [last exprList]" by simp
    from "15.prems" have run:
      "toAssignableList (butlast exprList @ [last exprList]) isBinding contextDescription
         = Returned outs"
      using xl by simp
    have split: "map (map_option retagged) exprList
                  = map (map_option retagged) (butlast exprList)
                      @ [map_option retagged (last exprList)]"
      using arg_cong [OF xl, of "map (map_option retagged)"] by simp
    show ?thesis
    proof (cases "last exprList")
      case None
      with run xl have "toAssignableElements exprList isBinding contextDescription = Returned outs"
        by (simp add: toAssignableList_snoc)
      with "15.IH"(1) False None show ?thesis by simp
    next
      case (Some lst)
      consider (rest) "is_RestElement lst"
        | (spread) "\<not> is_RestElement lst" "is_SpreadElement lst"
        | (other) "\<not> is_RestElement lst" "\<not> is_SpreadElement lst"
        by blast
      then show ?thesis
      proof cases
        case rest
        with run Some obtain ys where
          ys: "toAssignableElements (butlast exprList) isBinding contextDescription = Returned ys"
          and outs: "outs = ys @ [Some lst]"
          by (auto simp: toAssignableList_snoc inState_Returned_iff)
        from "15.IH"(2) [OF False Some rest ys]
        have "ys = map (map_option retagged) (butlast exprList)" .
        moreover from rest have "retagged lst = lst" by (cases lst) auto
        ultimately show ?thesis using split Some outs by simp
      next
        case spread
        with run Some obtain arg ys where
          arg: "toAssignableNode (argument lst) isBinding contextDescription = Returned arg"
          and shape: "\<not> (\<not> is_Identifier arg \<and> \<not> is_MemberExpression arg \<and> \<not> is_ArrayPattern arg)"
          and ys: "toAssignableElements (butlast exprList) isBinding contextDescription = Returned ys"
          and outs: "outs = ys @ [Some (RestElement (start lst) (nend lst) arg)]"
          by (auto simp: toAssignableList_snoc inState_Returned_iff unexpected_def
                split: outcome.splits if_splits)
        from "15.IH"(3) [OF False Some spread arg]
        have a: "arg = retagged (argument lst)" .
        from "15.IH"(4) [OF False Some spread arg shape ys]
        have b: "ys = map (map_option retagged) (butlast exprList)" .
        from spread have "retagged lst = RestElement (start lst) (nend lst) (retagged (argument lst))"
          by (cases lst) auto
        with a b show ?thesis using split Some outs by simp
      next
        case other
        with run xl Some
        have "toAssignableElements exprList isBinding contextDescription = Returned outs"
          by (simp add: toAssignableList_snoc)
        with "15.IH"(5) False Some other show ?thesis by simp
      qed
    qed
  qed
qed (auto simp: raise_def inState_Returned_iff
       split: if_splits outcome.splits option.splits)


section \<open>Conversion of single nodes\<close>

text \<open>
  C6: converting a node that already is an Identifier, a PrivateName, an ObjectPattern, an
  ArrayPattern or an AssignmentPattern returns without raising, whatever \<open>isBinding\<close> and
  \<open>contextDescription\<close> are, and the node comes back with its discriminant and all its
  children unchanged; an absent node passes through unchanged.
\<close>

theorem toAssignable_pattern_unchanged:
  "toAssignable (Some (Identifier s e x)) isBinding contextDescription
     = Returned (Some (Identifier s e x))
   \<and> toAssignable (Some (PrivateName s e x)) isBinding contextDescription
     = Returned (Some (PrivateName s e x))
   \<and> toAssignable (Some (ObjectPattern s e ps)) isBinding contextDescription
     = Returned (Some (ObjectPattern s e ps))
   \<and> toAssignable (Some (ArrayPattern s e es)) isBinding contextDescription
     = Returned (Some (ArrayPattern s e es))
   \<and> toAssignable (Some (AssignmentPattern s e l r)) isBinding contextDescription
     = Returned (Some (AssignmentPattern s e l r))
   \<and> toAssignable None isBinding contextDescription = Returned None"
  by (simp add: toAssignable_def)

text \<open>
  C7: on an AssignmentExpression, \<open>toAssignable\<close> returns the node retagged to
  AssignmentPattern, without its operator field, when the operator is exactly \<open>=\<close>; for
  every other operator it throws "Only '=' operator can be used for specifying default
  value." at the end of the left child, and the node is still an AssignmentExpression with
  its operator.
\<close>

theorem toAssignable_AssignmentExpression:
  "toAssignable (Some (AssignmentExpression s e op l r)) isBinding contextDescription
     = (if op = ''=''
        then Returned (Some (AssignmentPattern s e l r))
        else Thrown (SyntaxError (nend l)
                       ''Only '=' operator can be used for specifying default value.'')
               (Some (AssignmentExpression s e op l r)))"
  by (simp add: toAssignable_def raise_def)

section \<open>Conversion of object expressions\<close>

text \<open>
  C8: an ObjectExpression is retagged to ObjectPattern and its properties are processed in
  order. When the properties before it have converted, a property that is an ObjectMethod
  of kind "get" or "set" makes the call throw "Object pattern can't contain getter or
  setter", an ObjectMethod of any other kind makes it throw the different message "Object
  pattern can't contain methods" (both at the start of the method's key), and a property
  that is not a method is converted by \<open>toAssignable\<close> under the context "object
  destructuring pattern": its failure is the failure of the call, and when every property
  converts the call returns the ObjectPattern of the converted properties.
\<close>

theorem toAssignable_ObjectExpression:
  assumes "list_all2 (\<lambda>p p'. \<not> is_ObjectMethod p \<and>
             toAssignable (Some p) isBinding ''object destructuring pattern'' = Returned (Some p'))
           pre pre'"
  shows "toAssignable (Some (ObjectExpression s e pre)) isBinding contextDescription
           = Returned (Some (ObjectPattern s e pre'))
       \<and> (is_ObjectMethod m \<longrightarrow>
            toAssignable (Some (ObjectExpression s e (pre @ m # rest))) isBinding
                contextDescription
              = Thrown (SyntaxError (start (key m))
                         (if kind m = ''get'' \<or> kind m = ''set''
                          then ''Object pattern can't contain getter or setter''
                          else ''Object pattern can't contain methods''))
                  (Some (ObjectPattern s e (pre' @ m # rest))))
       \<and> (\<not> is_ObjectMethod p \<and>
            toAssignable (Some p) isBinding ''object destructuring pattern''
              = Thrown err (Some p') \<longrightarrow>
            toAssignable (Some (ObjectExpression s e (pre @ p # rest))) isBinding
                contextDescription
              = Thrown err (Some (ObjectPattern s e (pre' @ p' # rest))))
       \<and> ''Object pattern can't contain getter or setter''
            \<noteq> ''Object pattern can't contain methods''"
proof -
  from assms have conv: "toAssignableProperties pre isBinding = Returned pre'"
    by (simp add: toAssignableProperties_Returned_iff toAssignable_Some_Returned)
  have all: "toAssignable (Some (ObjectExpression s e pre)) isBinding contextDescription
           = Returned (Some (ObjectPattern s e pre'))"
    by (simp add: toAssignable_def conv)
  have meth: "toAssignable (Some (ObjectExpression s e (pre @ m # rest))) isBinding
                contextDescription
              = Thrown (SyntaxError (start (key m))
                         (if kind m = ''get'' \<or> kind m = ''set''
                          then ''Object pattern can't contain getter or setter''
                          else ''Object pattern can't contain methods''))
                  (Some (ObjectPattern s e (pre' @ m # rest)))" if "is_ObjectMethod m"
    using that by (simp add: toAssignable_def toAssignableProperties_append [OF conv] raise_def)
  have fails: "toAssignable (Some (ObjectExpression s e (pre @ p # rest))) isBinding
                contextDescription
              = Thrown err (Some (ObjectPattern s e (pre' @ p' # rest)))"
    if "\<not> is_ObjectMethod p"
      and "toAssignable (Some p) isBinding ''object destructuring pattern'' = Thrown err (Some p')"
  proof -
    from that(2) have "toAssignableNode p isBinding ''object destructuring pattern'' = Thrown err p'"
      by (simp add: toAssignable_Some_Thrown)
    with that(1) show ?thesis
      by (simp add: toAssignable_def toAssignableProperties_append [OF conv])
  qed
  from all meth fails show ?thesis by simp
qed

theorem toAssignable_ObjectExpression_witness:
  "toAssignable
     (Some (ObjectExpression 0 20
        [ObjectProperty 1 2 (Identifier 1 2 ''a'') (Identifier 1 2 ''a'')]))
     False ''assignment expression''
     = Returned (Some (ObjectPattern 0 20
        [ObjectProperty 1 2 (Identifier 1 2 ''a'') (Identifier 1 2 ''a'')]))
   \<and> toAssignable
     (Some (ObjectExpression 0 20
        [ObjectProperty 1 2 (Identifier 1 2 ''a'') (Identifier 1 2 ''a''),
         ObjectMethod 4 13 ''get'' (Identifier 8 9 ''x''),
         ObjectProperty 15 19 (Identifier 15 16 ''b'') (OtherNode 18 19)]))
     False ''assignment expression''
     = Thrown (SyntaxError 8 ''Object pattern can't contain getter or setter'')
        (Some (ObjectPattern 0 20
          [ObjectProperty 1 2 (Identifier 1 2 ''a'') (Identifier 1 2 ''a''),
           ObjectMethod 4 13 ''get'' (Identifier 8 9 ''x''),
           ObjectProperty 15 19 (Identifier 15 16 ''b'') (OtherNode 18 19)]))
   \<and> toAssignable
     (Some (ObjectExpression 0 20
        [ObjectProperty 1 2 (Identifier 1 2 ''a'') (Identifier 1 2 ''a''),
         ObjectProperty 15 19 (Identifier 15 16 ''b'') (OtherNode 18 19),
         ObjectMethod 4 13 ''get'' (Identifier 8 9 ''x'')]))
     False ''assignment expression''
     = Thrown (SyntaxError 18 ''Invalid left-hand side in object destructuring pattern'')
        (Some (ObjectPattern 0 20
          [ObjectProperty 1 2 (Identifier 1 2 ''a'') (Identifier 1 2 ''a''),
           ObjectProperty 15 19 (Identifier 15 16 ''b'') (OtherNode 18 19),
           ObjectMethod 4 13 ''get'' (Identifier 8 9 ''x'')]))"
  using toAssignable_ObjectExpression
    [where isBinding = False
       and pre = "[ObjectProperty 1 2 (Identifier 1 2 ''a'') (Identifier 1 2 ''a'')]"
       and pre' = "[ObjectProperty 1 2 (Identifier 1 2 ''a'') (Identifier 1 2 ''a'')]"
       and s = 0 and e = 20 and contextDescription = "''assignment expression''"
       and m = "ObjectMethod 4 13 ''get'' (Identifier 8 9 ''x'')"
       and rest = "[ObjectProperty 15 19 (Identifier 15 16 ''b'') (OtherNode 18 19)]"]
    toAssignable_ObjectExpression
    [where isBinding = False
       and pre = "[ObjectProperty 1 2 (Identifier 1 2 ''a'') (Identifier 1 2 ''a'')]"
       and pre' = "[ObjectProperty 1 2 (Identifier 1 2 ''a'') (Identifier 1 2 ''a'')]"
       and s = 0 and e = 20 and contextDescription = "''assignment expression''"
       and p = "ObjectProperty 15 19 (Identifier 15 16 ''b'') (OtherNode 18 19)"
       and err = "SyntaxError 18 ''Invalid left-hand side in object destructuring pattern''"
       and p' = "ObjectProperty 15 19 (Identifier 15 16 ''b'') (OtherNode 18 19)"
       and rest = "[ObjectMethod 4 13 ''get'' (Identifier 8 9 ''x'')]"]
  by (simp add: toAssignable_def raise_def invalidLeftHandSide_def)

text \<open>
  C10: the retag of an ObjectExpression comes before its properties are examined, so a
  failing conversion is not atomic. Whenever \<open>toAssignable\<close> throws on an ObjectExpression,
  the node left behind is an ObjectPattern (same offsets, as many properties); a property
  that is an ObjectMethod, accessor or not, always makes the call throw, so it leaves an
  ObjectPattern behind; and when the first property is the method, the node at the throw
  is the ObjectPattern of the untouched properties.
\<close>

theorem ObjectExpression_retagged_when_thrown:
  "(toAssignable (Some (ObjectExpression s e ps)) isBinding contextDescription = Thrown err st
      \<longrightarrow> (\<exists>ps'. st = Some (ObjectPattern s e ps') \<and> length ps' = length ps))
   \<and> ((\<exists>m\<in>set ps. is_ObjectMethod m) \<longrightarrow>
        (\<exists>err' ps'. toAssignable (Some (ObjectExpression s e ps)) isBinding contextDescription
           = Thrown err' (Some (ObjectPattern s e ps'))))
   \<and> (is_ObjectMethod m \<longrightarrow>
        (\<exists>err'. toAssignable (Some (ObjectExpression s e (m # rest))) isBinding
                   contextDescription
           = Thrown err' (Some (ObjectPattern s e (m # rest)))))"
proof (intro conjI impI)
  assume "toAssignable (Some (ObjectExpression s e ps)) isBinding contextDescription
            = Thrown err st"
  then obtain ps' where "toAssignableProperties ps isBinding = Thrown err ps'"
    and "st = Some (ObjectPattern s e ps')"
    by (auto simp: toAssignable_def inState_Thrown_iff)
  then show "\<exists>ps'. st = Some (ObjectPattern s e ps') \<and> length ps' = length ps"
    by (auto dest: toAssignableProperties_length)
next
  assume "\<exists>m\<in>set ps. is_ObjectMethod m"
  from toAssignableProperties_method_throws [OF this, of isBinding]
  show "\<exists>err' ps'. toAssignable (Some (ObjectExpression s e ps)) isBinding contextDescription
           = Thrown err' (Some (ObjectPattern s e ps'))"
    by (auto simp: toAssignable_def)
next
  assume "is_ObjectMethod m"
  then show "\<exists>err'. toAssignable (Some (ObjectExpression s e (m # rest))) isBinding
                   contextDescription
           = Thrown err' (Some (ObjectPattern s e (m # rest)))"
    by (simp add: toAssignable_def raise_def)
qed

theorem ObjectExpression_retagged_when_thrown_witness:
  "toAssignable
     (Some (ObjectExpression 0 20
        [ObjectMethod 1 9 ''method'' (Identifier 1 2 ''m''),
         ObjectProperty 11 12 (Identifier 11 12 ''a'') (Identifier 11 12 ''a'')]))
     True ''function parameter list''
     = Thrown (SyntaxError 1 ''Object pattern can't contain methods'')
        (Some (ObjectPattern 0 20
          [ObjectMethod 1 9 ''method'' (Identifier 1 2 ''m''),
           ObjectProperty 11 12 (Identifier 11 12 ''a'') (Identifier 11 12 ''a'')]))
   \<and> (\<exists>ps'. Some (ObjectPattern 0 20
          [ObjectMethod 1 9 ''method'' (Identifier 1 2 ''m''),
           ObjectProperty 11 12 (Identifier 11 12 ''a'') (Identifier 11 12 ''a'')])
         = Some (ObjectPattern 0 20 ps') \<and> length ps' = 2)"
  using ObjectExpression_retagged_when_thrown
    [where s = 0 and e = 20 and isBinding = True
       and contextDescription = "''function parameter list''"
       and ps = "[ObjectMethod 1 9 ''method'' (Identifier 1 2 ''m''),
                  ObjectProperty 11 12 (Identifier 11 12 ''a'') (Identifier 11 12 ''a'')]"
       and err = "SyntaxError 1 ''Object pattern can't contain methods''"
       and st = "Some (ObjectPattern 0 20
          [ObjectMethod 1 9 ''method'' (Identifier 1 2 ''m''),
           ObjectProperty 11 12 (Identifier 11 12 ''a'') (Identifier 11 12 ''a'')])"
       and m = "ObjectMethod 1 9 ''method'' (Identifier 1 2 ''m'')"
       and rest = "[ObjectProperty 11 12 (Identifier 11 12 ''a'') (Identifier 11 12 ''a'')]"]
  by (simp add: toAssignable_def raise_def)

section \<open>Discriminants after a conversion\<close>

text \<open>
  C1 (as amended): when \<open>toAssignable\<close> returns, the result is the tree it was given with
  the expression nodes at the places the conversion visits retagged, and every node it
  does not visit (the default value of an assignment pattern, a property key, what is
  below a node that already was a pattern) as it was; and every node of the result at a
  visited place (the result itself, the properties of a converted object expression, the
  value of an object property, the argument of a converted spread element, the elements
  of a converted array expression) has its discriminant in the pattern family, or is an ObjectProperty, or is a MemberExpression
  while \<open>isBinding\<close> is false.
\<close>

theorem toAssignable_visited_shapes:
  "toAssignable (Some n) isBinding contextDescription = Returned (Some r) \<Longrightarrow>
     r = retagged n \<and> list_all (assignableShape isBinding) (visited n r)"
  by (simp add: toAssignable_Some_Returned visited_shapes(1) returned_retagged(1))

theorem toAssignable_visited_shapes_witness:
  "toAssignable
     (Some (ArrayExpression 0 30
        [Some (ObjectExpression 1 10
           [ObjectProperty 2 9 (OtherNode 2 3) (ArrayExpression 5 9 [])]),
         None,
         Some (AssignmentExpression 12 17 ''='' (Identifier 12 13 ''c'') (OtherNode 16 17)),
         Some (SpreadElement 19 26 (MemberExpression 22 26))]))
     False ''assignment expression''
     = Returned
        (Some (ArrayPattern 0 30
           [Some (ObjectPattern 1 10
              [ObjectProperty 2 9 (OtherNode 2 3) (ArrayPattern 5 9 [])]),
            None,
            Some (AssignmentPattern 12 17 (Identifier 12 13 ''c'') (OtherNode 16 17)),
            Some (RestElement 19 26 (MemberExpression 22 26))]))
   \<and> ArrayPattern 0 30
           [Some (ObjectPattern 1 10
              [ObjectProperty 2 9 (OtherNode 2 3) (ArrayPattern 5 9 [])]),
            None,
            Some (AssignmentPattern 12 17 (Identifier 12 13 ''c'') (OtherNode 16 17)),
            Some (RestElement 19 26 (MemberExpression 22 26))]
       = retagged
          (ArrayExpression 0 30
            [Some (ObjectExpression 1 10
               [ObjectProperty 2 9 (OtherNode 2 3) (ArrayExpression 5 9 [])]),
             None,
             Some (AssignmentExpression 12 17 ''='' (Identifier 12 13 ''c'') (OtherNode 16 17)),
             Some (SpreadElement 19 26 (MemberExpression 22 26))])
   \<and> list_all (assignableShape False)
       (visited
          (ArrayExpression 0 30
            [Some (ObjectExpression 1 10
               [ObjectProperty 2 9 (OtherNode 2 3) (ArrayExpression 5 9 [])]),
             None,
             Some (AssignmentExpression 12 17 ''='' (Identifier 12 13 ''c'') (OtherNode 16 17)),
             Some (SpreadElement 19 26 (MemberExpression 22 26))])
          (ArrayPattern 0 30
            [Some (ObjectPattern 1 10
               [ObjectProperty 2 9 (OtherNode 2 3) (ArrayPattern 5 9 [])]),
             None,
             Some (AssignmentPattern 12 17 (Identifier 12 13 ''c'') (OtherNode 16 17)),
             Some (RestElement 19 26 (MemberExpression 22 26))]))"
proof -
  have run: "toAssignable
     (Some (ArrayExpression 0 30
        [Some (ObjectExpression 1 10
           [ObjectProperty 2 9 (OtherNode 2 3) (ArrayExpression 5 9 [])]),
         None,
         Some (AssignmentExpression 12 17 ''='' (Identifier 12 13 ''c'') (OtherNode 16 17)),
         Some (SpreadElement 19 26 (MemberExpression 22 26))]))
     False ''assignment expression''
     = Returned
        (Some (ArrayPattern 0 30
           [Some (ObjectPattern 1 10
              [ObjectProperty 2 9 (OtherNode 2 3) (ArrayPattern 5 9 [])]),
            None,
            Some (AssignmentPattern 12 17 (Identifier 12 13 ''c'') (OtherNode 16 17)),
            Some (RestElement 19 26 (MemberExpression 22 26))]))"
    by (simp add: toAssignable_def)
  from run toAssignable_visited_shapes [OF run] show ?thesis by blast
qed

text \<open>
  C1 as stated fails, in each of the ways the amended claim leaves room for. Converting the
  parameter \<open>[a.b = 1]\<close> of an arrow function in binding context returns an ArrayPattern
  whose AssignmentPattern keeps the left child \<open>a.b\<close>, a MemberExpression, and the default
  value \<open>1\<close>. Converting \<open>{a}\<close> returns an ObjectPattern whose property is still an
  ObjectProperty, and in \<open>{[k()]: a}\<close> the computed key stays a call. An ArrayPattern
  holding \<open>a = 1\<close> comes back as it is, default value included. Each list is the nodes
  reachable from the result whose discriminant the claim does not allow.
\<close>

theorem toAssignable_reachable_counterexample:
  "toAssignable
     (Some (ArrayExpression 1 10
        [Some (AssignmentExpression 2 9 ''='' (MemberExpression 2 5) (OtherNode 8 9))]))
     True ''arrow function parameters''
     = Returned
        (Some (ArrayPattern 1 10
           [Some (AssignmentPattern 2 9 (MemberExpression 2 5) (OtherNode 8 9))]))
   \<and> filter (\<lambda>m. \<not> claimedShape True m)
        (reachable
           (ArrayPattern 1 10
             [Some (AssignmentPattern 2 9 (MemberExpression 2 5) (OtherNode 8 9))]))
     = [MemberExpression 2 5, OtherNode 8 9]
   \<and> toAssignable
     (Some (ObjectExpression 0 3
        [ObjectProperty 1 2 (Identifier 1 2 ''a'') (Identifier 1 2 ''a'')]))
     False ''assignment expression''
     = Returned
        (Some (ObjectPattern 0 3
           [ObjectProperty 1 2 (Identifier 1 2 ''a'') (Identifier 1 2 ''a'')]))
   \<and> filter (\<lambda>m. \<not> claimedShape False m)
        (reachable
           (ObjectPattern 0 3
             [ObjectProperty 1 2 (Identifier 1 2 ''a'') (Identifier 1 2 ''a'')]))
     = [ObjectProperty 1 2 (Identifier 1 2 ''a'') (Identifier 1 2 ''a'')]
   \<and> toAssignable
     (Some (ObjectExpression 0 11
        [ObjectProperty 1 10 (OtherNode 2 5) (Identifier 9 10 ''a'')]))
     False ''assignment expression''
     = Returned
        (Some (ObjectPattern 0 11
           [ObjectProperty 1 10 (OtherNode 2 5) (Identifier 9 10 ''a'')]))
   \<and> filter (\<lambda>m. \<not> claimedShape False m)
        (reachable
           (ObjectPattern 0 11
             [ObjectProperty 1 10 (OtherNode 2 5) (Identifier 9 10 ''a'')]))
     = [ObjectProperty 1 10 (OtherNode 2 5) (Identifier 9 10 ''a''), OtherNode 2 5]
   \<and> toAssignable
     (Some (ArrayPattern 0 7
        [Some (AssignmentPattern 1 6 (Identifier 1 2 ''a'') (OtherNode 5 6))]))
     True ''function parameter list''
     = Returned
        (Some (ArrayPattern 0 7
           [Some (AssignmentPattern 1 6 (Identifier 1 2 ''a'') (OtherNode 5 6))]))
   \<and> filter (\<lambda>m. \<not> claimedShape True m)
        (reachable
           (ArrayPattern 0 7
             [Some (AssignmentPattern 1 6 (Identifier 1 2 ''a'') (OtherNode 5 6))]))
     = [OtherNode 5 6]"
  by (simp add: toAssignable_def claimedShape_def)

section \<open>Conversion of element lists\<close>

text \<open>
  C2 (as amended): a list with a SpreadElement at a non-last index always makes
  \<open>toAssignableList\<close> throw. The last element is handled first and the earlier elements
  are converted in order, and the first failure is the one thrown. When the handling of
  the last element succeeds and every element before the spread converts, the error is
  "The rest element has to be the last element when destructuring", at the start of that
  spread; the throw comes before any conversion of the spread, which is left a
  SpreadElement, after its converted predecessors. When an element before the spread
  fails to convert, the error is that element's, and the elements after it are untouched.
  When the last element is a spread whose argument fails to convert, the error is the
  argument's; when the converted argument is not an Identifier, a MemberExpression or an
  ArrayPattern, it is the unexpected-token error at the argument; in both cases no earlier
  element has been touched. Holes pass through without error.
\<close>

theorem toAssignableList_spread_not_last:
  assumes "is_SpreadElement sp"
  shows "(\<exists>err' st. toAssignableList (pre @ Some sp # mid @ [l]) isBinding contextDescription
            = Thrown err' st)
     \<and> (list_all2 (\<lambda>x y. \<not> isSpreadElement x \<and>
                      toAssignable x isBinding contextDescription = Returned y) pre pre'
          \<and> lastHandled isBinding contextDescription l l' \<longrightarrow>
        toAssignableList (pre @ Some sp # mid @ [l]) isBinding contextDescription
          = Thrown (SyntaxError (start sp)
               ''The rest element has to be the last element when destructuring'')
              (pre' @ Some sp # mid @ [l']))
     \<and> (list_all2 (\<lambda>x y. \<not> isSpreadElement x \<and>
                      toAssignable x isBinding contextDescription = Returned y) p1 p1'
          \<and> \<not> isSpreadElement x
          \<and> toAssignable x isBinding contextDescription = Thrown err x'
          \<and> lastHandled isBinding contextDescription l l' \<longrightarrow>
        toAssignableList (p1 @ x # p2 @ Some sp # mid @ [l]) isBinding contextDescription
          = Thrown err (p1' @ x' # p2 @ Some sp # mid @ [l']))
     \<and> (is_SpreadElement n
          \<and> toAssignable (Some (argument n)) isBinding contextDescription
              = Thrown err (Some a) \<longrightarrow>
        toAssignableList (pre @ Some sp # mid @ [Some n]) isBinding contextDescription
          = Thrown err (pre @ Some sp # mid @ [Some (RestElement (start n) (nend n) a)]))
     \<and> (is_SpreadElement n
          \<and> toAssignable (Some (argument n)) isBinding contextDescription
              = Returned (Some a)
          \<and> \<not> (is_Identifier a \<or> is_MemberExpression a \<or> is_ArrayPattern a) \<longrightarrow>
        toAssignableList (pre @ Some sp # mid @ [Some n]) isBinding contextDescription
          = Thrown (UnexpectedToken (start a))
              (pre @ Some sp # mid @ [Some (RestElement (start n) (nend n) a)]))
     \<and> toAssignableList (replicate k None) isBinding contextDescription
          = Returned (replicate k None)"
proof (intro conjI impI)
  let ?xs = "pre @ Some sp # mid"
  have whole: "pre @ Some sp # mid @ [l] = ?xs @ [l]" by simp
  from assms obtain e1 s1 where short:
    "toAssignableElements ?xs isBinding contextDescription = Thrown e1 s1"
    using toAssignableElements_spread_throws [of sp ?xs isBinding contextDescription] by auto
  from assms obtain e2 s2 where long:
    "toAssignableElements (?xs @ [l]) isBinding contextDescription = Thrown e2 s2"
    using toAssignableElements_spread_throws [of sp "?xs @ [l]" isBinding contextDescription]
    by auto
  show "\<exists>err' st. toAssignableList (pre @ Some sp # mid @ [l]) isBinding contextDescription
            = Thrown err' st"
    unfolding whole toAssignableList_snoc using short long
    by (auto simp: unexpected_def split: option.splits outcome.splits)
next
  assume a: "list_all2 (\<lambda>x y. \<not> isSpreadElement x \<and>
                      toAssignable x isBinding contextDescription = Returned y) pre pre'
          \<and> lastHandled isBinding contextDescription l l'"
  have whole: "pre @ Some sp # mid @ [l] = (pre @ Some sp # mid) @ [l]" by simp
  from a assms have "toAssignableElements (pre @ Some sp # mid) isBinding contextDescription
          = Thrown (SyntaxError (start sp)
               ''The rest element has to be the last element when destructuring'')
              (pre' @ Some sp # mid)"
    by (simp add: toAssignableElements_at_spread)
  from toAssignableList_Thrown_before_last [OF _ this, of l l'] a
  show "toAssignableList (pre @ Some sp # mid @ [l]) isBinding contextDescription
          = Thrown (SyntaxError (start sp)
               ''The rest element has to be the last element when destructuring'')
              (pre' @ Some sp # mid @ [l'])"
    unfolding whole by simp
next
  assume a: "list_all2 (\<lambda>x y. \<not> isSpreadElement x \<and>
                      toAssignable x isBinding contextDescription = Returned y) p1 p1'
          \<and> \<not> isSpreadElement x
          \<and> toAssignable x isBinding contextDescription = Thrown err x'
          \<and> lastHandled isBinding contextDescription l l'"
  have whole: "p1 @ x # p2 @ Some sp # mid @ [l] = (p1 @ x # p2 @ Some sp # mid) @ [l]"
    by simp
  from a have "toAssignableElements (p1 @ x # p2 @ Some sp # mid) isBinding contextDescription
          = Thrown err (p1' @ x' # p2 @ Some sp # mid)"
    by (simp add: toAssignableElements_at_failure)
  from toAssignableList_Thrown_before_last [OF _ this, of l l'] a
  show "toAssignableList (p1 @ x # p2 @ Some sp # mid @ [l]) isBinding contextDescription
          = Thrown err (p1' @ x' # p2 @ Some sp # mid @ [l'])"
    unfolding whole by simp
next
  assume "is_SpreadElement n
          \<and> toAssignable (Some (argument n)) isBinding contextDescription
              = Thrown err (Some a)"
  then have "is_SpreadElement n" "\<not> is_RestElement n"
    "toAssignableNode (argument n) isBinding contextDescription = Thrown err a"
    by (auto simp: toAssignable_Some_Thrown SpreadElement_not_RestElement)
  moreover have "pre @ Some sp # mid @ [Some n] = (pre @ Some sp # mid) @ [Some n]" by simp
  ultimately
  show "toAssignableList (pre @ Some sp # mid @ [Some n]) isBinding contextDescription
          = Thrown err (pre @ Some sp # mid @ [Some (RestElement (start n) (nend n) a)])"
    by (simp only: toAssignableList_snoc) simp
next
  assume "is_SpreadElement n
          \<and> toAssignable (Some (argument n)) isBinding contextDescription
              = Returned (Some a)
          \<and> \<not> (is_Identifier a \<or> is_MemberExpression a \<or> is_ArrayPattern a)"
  then have "is_SpreadElement n" "\<not> is_RestElement n"
    "toAssignableNode (argument n) isBinding contextDescription = Returned a"
    "\<not> is_Identifier a \<and> \<not> is_MemberExpression a \<and> \<not> is_ArrayPattern a"
    by (auto simp: toAssignable_Some_Returned SpreadElement_not_RestElement)
  moreover have "pre @ Some sp # mid @ [Some n] = (pre @ Some sp # mid) @ [Some n]" by simp
  ultimately
  show "toAssignableList (pre @ Some sp # mid @ [Some n]) isBinding contextDescription
          = Thrown (UnexpectedToken (start a))
              (pre @ Some sp # mid @ [Some (RestElement (start n) (nend n) a)])"
    by (simp only: toAssignableList_snoc) (simp add: unexpected_def)
next
  show "toAssignableList (replicate k None) isBinding contextDescription
          = Returned (replicate k None)"
    by (cases k) (simp_all add: toAssignableElements_holes [of "Suc _", simplified])
qed


theorem toAssignableList_spread_not_last_witness:
  "is_SpreadElement (SpreadElement 5 9 (Identifier 8 9 ''b''))
   \<and> toAssignableList
       [None, Some (Identifier 2 3 ''a''), Some (SpreadElement 5 9 (Identifier 8 9 ''b'')),
        Some (Identifier 11 12 ''c'')]
       False ''assignment expression''
     = Thrown (SyntaxError 5
          ''The rest element has to be the last element when destructuring'')
         [None, Some (Identifier 2 3 ''a''), Some (SpreadElement 5 9 (Identifier 8 9 ''b'')),
          Some (Identifier 11 12 ''c'')]
   \<and> toAssignableList
       [Some (SpreadElement 5 9 (Identifier 8 9 ''b'')),
        Some (SpreadElement 11 15 (Identifier 14 15 ''c''))]
       False ''assignment expression''
     = Thrown (SyntaxError 5
          ''The rest element has to be the last element when destructuring'')
         [Some (SpreadElement 5 9 (Identifier 8 9 ''b'')),
          Some (RestElement 11 15 (Identifier 14 15 ''c''))]
   \<and> toAssignableList
       [Some (ArrayExpression 1 3 []), Some (OtherNode 4 5),
        Some (SpreadElement 5 9 (Identifier 8 9 ''b'')), Some (Identifier 11 12 ''c'')]
       False ''assignment expression''
     = Thrown (SyntaxError 4 ''Invalid left-hand side in assignment expression'')
         [Some (ArrayPattern 1 3 []), Some (OtherNode 4 5),
          Some (SpreadElement 5 9 (Identifier 8 9 ''b'')), Some (Identifier 11 12 ''c'')]
   \<and> toAssignableList
       [Some (SpreadElement 5 9 (Identifier 8 9 ''b'')),
        Some (SpreadElement 11 15 (OtherNode 14 15))]
       False ''assignment expression''
     = Thrown (SyntaxError 14 ''Invalid left-hand side in assignment expression'')
         [Some (SpreadElement 5 9 (Identifier 8 9 ''b'')),
          Some (RestElement 11 15 (OtherNode 14 15))]
   \<and> toAssignableList
       [Some (SpreadElement 5 9 (Identifier 8 9 ''b'')),
        Some (SpreadElement 11 16 (ObjectExpression 14 16 []))]
       False ''assignment expression''
     = Thrown (UnexpectedToken 14)
         [Some (SpreadElement 5 9 (Identifier 8 9 ''b'')),
          Some (RestElement 11 16 (ObjectPattern 14 16 []))]
   \<and> toAssignableList [None, None] False ''assignment expression'' = Returned [None, None]"
proof -
  have sp: "is_SpreadElement (SpreadElement 5 9 (Identifier 8 9 ''b''))" by simp
  have pre: "list_all2 (\<lambda>x y. \<not> isSpreadElement x \<and>
                 toAssignable x False ''assignment expression'' = Returned y)
               [None, Some (Identifier 2 3 ''a'')] [None, Some (Identifier 2 3 ''a'')]"
    and nil: "list_all2 (\<lambda>x y. \<not> isSpreadElement x \<and>
                 toAssignable x False ''assignment expression'' = Returned y) [] []"
    and arr: "list_all2 (\<lambda>x y. \<not> isSpreadElement x \<and>
                 toAssignable x False ''assignment expression'' = Returned y)
               [Some (ArrayExpression 1 3 [])] [Some (ArrayPattern 1 3 [])]"
    by (simp_all add: isSpreadElement_def toAssignable_def)
  have plain: "lastHandled False ''assignment expression''
                 (Some (Identifier 11 12 ''c'')) (Some (Identifier 11 12 ''c''))"
    and rest: "lastHandled False ''assignment expression''
                 (Some (SpreadElement 11 15 (Identifier 14 15 ''c'')))
                 (Some (RestElement 11 15 (Identifier 14 15 ''c'')))"
    by (simp_all add: lastHandled_def toAssignable_def)
  have fails: "\<not> isSpreadElement (Some (OtherNode 4 5))"
    "toAssignable (Some (OtherNode 4 5)) False ''assignment expression''
       = Thrown (SyntaxError 4 ''Invalid left-hand side in assignment expression'')
           (Some (OtherNode 4 5))"
    "toAssignable (Some (argument (SpreadElement 11 15 (OtherNode 14 15)))) False
         ''assignment expression''
       = Thrown (SyntaxError 14 ''Invalid left-hand side in assignment expression'')
           (Some (OtherNode 14 15))"
    "toAssignable (Some (argument (SpreadElement 11 16 (ObjectExpression 14 16 [])))) False
         ''assignment expression''
       = Returned (Some (ObjectPattern 14 16 []))"
    by (simp_all add: isSpreadElement_def toAssignable_def raise_def invalidLeftHandSide_def)
  note t = toAssignableList_spread_not_last [OF sp, of _ _ _ False "''assignment expression''"]
  have 1: "toAssignableList
       [None, Some (Identifier 2 3 ''a''), Some (SpreadElement 5 9 (Identifier 8 9 ''b'')),
        Some (Identifier 11 12 ''c'')]
       False ''assignment expression''
     = Thrown (SyntaxError 5
          ''The rest element has to be the last element when destructuring'')
         [None, Some (Identifier 2 3 ''a''), Some (SpreadElement 5 9 (Identifier 8 9 ''b'')),
          Some (Identifier 11 12 ''c'')]"
    using t [where pre = "[None, Some (Identifier 2 3 ''a'')]"
               and pre' = "[None, Some (Identifier 2 3 ''a'')]" and mid = "[]"
               and l = "Some (Identifier 11 12 ''c'')" and l' = "Some (Identifier 11 12 ''c'')"]
      pre plain by simp
  have 2: "toAssignableList
       [Some (SpreadElement 5 9 (Identifier 8 9 ''b'')),
        Some (SpreadElement 11 15 (Identifier 14 15 ''c''))]
       False ''assignment expression''
     = Thrown (SyntaxError 5
          ''The rest element has to be the last element when destructuring'')
         [Some (SpreadElement 5 9 (Identifier 8 9 ''b'')),
          Some (RestElement 11 15 (Identifier 14 15 ''c''))]"
    using t [where pre = "[]" and pre' = "[]" and mid = "[]"
               and l = "Some (SpreadElement 11 15 (Identifier 14 15 ''c''))"
               and l' = "Some (RestElement 11 15 (Identifier 14 15 ''c''))"]
      nil rest by simp
  have 3: "toAssignableList
       [Some (ArrayExpression 1 3 []), Some (OtherNode 4 5),
        Some (SpreadElement 5 9 (Identifier 8 9 ''b'')), Some (Identifier 11 12 ''c'')]
       False ''assignment expression''
     = Thrown (SyntaxError 4 ''Invalid left-hand side in assignment expression'')
         [Some (ArrayPattern 1 3 []), Some (OtherNode 4 5),
          Some (SpreadElement 5 9 (Identifier 8 9 ''b'')), Some (Identifier 11 12 ''c'')]"
    using t [where ?p1.0 = "[Some (ArrayExpression 1 3 [])]"
               and p1' = "[Some (ArrayPattern 1 3 [])]" and x = "Some (OtherNode 4 5)"
               and x' = "Some (OtherNode 4 5)" and ?p2.0 = "[]" and mid = "[]"
               and err = "SyntaxError 4 ''Invalid left-hand side in assignment expression''"
               and l = "Some (Identifier 11 12 ''c'')" and l' = "Some (Identifier 11 12 ''c'')"]
      arr plain fails by simp
  have 4: "toAssignableList
       [Some (SpreadElement 5 9 (Identifier 8 9 ''b'')),
        Some (SpreadElement 11 15 (OtherNode 14 15))]
       False ''assignment expression''
     = Thrown (SyntaxError 14 ''Invalid left-hand side in assignment expression'')
         [Some (SpreadElement 5 9 (Identifier 8 9 ''b'')),
          Some (RestElement 11 15 (OtherNode 14 15))]"
    using t [where pre = "[]" and mid = "[]" and n = "SpreadElement 11 15 (OtherNode 14 15)"
               and a = "OtherNode 14 15"
               and err = "SyntaxError 14 ''Invalid left-hand side in assignment expression''"]
      fails by simp
  have 5: "toAssignableList
       [Some (SpreadElement 5 9 (Identifier 8 9 ''b'')),
        Some (SpreadElement 11 16 (ObjectExpression 14 16 []))]
       False ''assignment expression''
     = Thrown (UnexpectedToken 14)
         [Some (SpreadElement 5 9 (Identifier 8 9 ''b'')),
          Some (RestElement 11 16 (ObjectPattern 14 16 []))]"
    using t [where pre = "[]" and mid = "[]"
               and n = "SpreadElement 11 16 (ObjectExpression 14 16 [])"
               and a = "ObjectPattern 14 16 []"]
      fails by simp
  have 6: "toAssignableList [None, None] False ''assignment expression''
             = Returned [None, None]"
    using t [where k = 2] by (simp add: numeral_2_eq_2)
  from sp 1 2 3 4 5 6 show ?thesis by blast
qed

text \<open>
  C2 as stated fails: in \<open>[1, ...a, b] = c\<close> the spread is at a non-last index, but the
  element before it does not convert, and the error of the call is that element's
  "Invalid left-hand side", not the misplaced-rest error.
\<close>

theorem toAssignableList_spread_not_last_counterexample:
  "toAssignableList
     [Some (OtherNode 1 2), Some (SpreadElement 4 8 (Identifier 7 8 ''a'')),
      Some (Identifier 10 11 ''b'')]
     False ''assignment expression''
   = Thrown (SyntaxError 1 ''Invalid left-hand side in assignment expression'')
       [Some (OtherNode 1 2), Some (SpreadElement 4 8 (Identifier 7 8 ''a'')),
        Some (Identifier 10 11 ''b'')]"
  by (simp add: raise_def invalidLeftHandSide_def)

text \<open>
  C3: a last element that is a RestElement is left untouched, whatever the outcome, and
  the call returns exactly when every earlier element converts by \<open>toAssignable\<close> (holes
  pass, an earlier spread never converts), with these conversions as its result. A last
  element that is a SpreadElement is retagged to RestElement and its argument converted by
  \<open>toAssignable\<close>: a failure of that conversion is the failure of the call; a converted
  argument that is not an Identifier, a MemberExpression or an ArrayPattern makes the call
  throw the unexpected-token error at the argument; otherwise the call returns exactly
  when every earlier element converts, with the conversions followed by the RestElement.
\<close>

theorem toAssignableList_last_element:
  "(is_RestElement r \<longrightarrow>
      (\<exists>c. toAssignableList (xs @ [Some r]) isBinding contextDescription
              = Returned (c @ [Some r])
          \<or> (\<exists>err'. toAssignableList (xs @ [Some r]) isBinding contextDescription
              = Thrown err' (c @ [Some r]))))
   \<and> (is_RestElement r \<longrightarrow>
        (toAssignableList (xs @ [Some r]) isBinding contextDescription = Returned zs
         \<longleftrightarrow> (\<exists>ys. zs = ys @ [Some r] \<and>
                list_all2 (\<lambda>x y. \<not> isSpreadElement x \<and>
                   toAssignable x isBinding contextDescription = Returned y) xs ys)))
   \<and> (is_SpreadElement sp
        \<and> toAssignable (Some (argument sp)) isBinding contextDescription
            = Thrown err (Some a) \<longrightarrow>
        toAssignableList (xs @ [Some sp]) isBinding contextDescription
          = Thrown err (xs @ [Some (RestElement (start sp) (nend sp) a)]))
   \<and> (is_SpreadElement sp
        \<and> toAssignable (Some (argument sp)) isBinding contextDescription
            = Returned (Some a)
        \<and> \<not> (is_Identifier a \<or> is_MemberExpression a \<or> is_ArrayPattern a) \<longrightarrow>
        toAssignableList (xs @ [Some sp]) isBinding contextDescription
          = Thrown (UnexpectedToken (start a))
              (xs @ [Some (RestElement (start sp) (nend sp) a)]))
   \<and> (is_SpreadElement sp
        \<and> toAssignable (Some (argument sp)) isBinding contextDescription
            = Returned (Some a)
        \<and> (is_Identifier a \<or> is_MemberExpression a \<or> is_ArrayPattern a) \<longrightarrow>
        (toAssignableList (xs @ [Some sp]) isBinding contextDescription = Returned zs
         \<longleftrightarrow> (\<exists>ys. zs = ys @ [Some (RestElement (start sp) (nend sp) a)] \<and>
                list_all2 (\<lambda>x y. \<not> isSpreadElement x \<and>
                   toAssignable x isBinding contextDescription = Returned y) xs ys)))"
proof (intro conjI impI)
  assume "is_RestElement r"
  then show "\<exists>c. toAssignableList (xs @ [Some r]) isBinding contextDescription
              = Returned (c @ [Some r])
          \<or> (\<exists>err'. toAssignableList (xs @ [Some r]) isBinding contextDescription
              = Thrown err' (c @ [Some r]))"
    by (cases "toAssignableElements xs isBinding contextDescription")
       (simp_all add: toAssignableList_snoc)
next
  assume "is_RestElement r"
  then show "toAssignableList (xs @ [Some r]) isBinding contextDescription = Returned zs
         \<longleftrightarrow> (\<exists>ys. zs = ys @ [Some r] \<and>
                list_all2 (\<lambda>x y. \<not> isSpreadElement x \<and>
                   toAssignable x isBinding contextDescription = Returned y) xs ys)"
    by (auto simp: toAssignableList_snoc inState_Returned_iff
          toAssignableElements_Returned_iff)
next
  assume "is_SpreadElement sp
        \<and> toAssignable (Some (argument sp)) isBinding contextDescription
            = Thrown err (Some a)"
  then have "is_SpreadElement sp" "\<not> is_RestElement sp"
    "toAssignableNode (argument sp) isBinding contextDescription = Thrown err a"
    by (auto simp: toAssignable_Some_Thrown SpreadElement_not_RestElement)
  then show "toAssignableList (xs @ [Some sp]) isBinding contextDescription
          = Thrown err (xs @ [Some (RestElement (start sp) (nend sp) a)])"
    by (simp add: toAssignableList_snoc)
next
  assume "is_SpreadElement sp
        \<and> toAssignable (Some (argument sp)) isBinding contextDescription
            = Returned (Some a)
        \<and> \<not> (is_Identifier a \<or> is_MemberExpression a \<or> is_ArrayPattern a)"
  then have "is_SpreadElement sp" "\<not> is_RestElement sp"
    "toAssignableNode (argument sp) isBinding contextDescription = Returned a"
    "\<not> is_Identifier a \<and> \<not> is_MemberExpression a \<and> \<not> is_ArrayPattern a"
    by (auto simp: toAssignable_Some_Returned SpreadElement_not_RestElement)
  then show "toAssignableList (xs @ [Some sp]) isBinding contextDescription
          = Thrown (UnexpectedToken (start a))
              (xs @ [Some (RestElement (start sp) (nend sp) a)])"
    by (simp add: toAssignableList_snoc unexpected_def)
next
  assume "is_SpreadElement sp
        \<and> toAssignable (Some (argument sp)) isBinding contextDescription
            = Returned (Some a)
        \<and> (is_Identifier a \<or> is_MemberExpression a \<or> is_ArrayPattern a)"
  then have "is_SpreadElement sp" "\<not> is_RestElement sp"
    "toAssignableNode (argument sp) isBinding contextDescription = Returned a"
    "is_Identifier a \<or> is_MemberExpression a \<or> is_ArrayPattern a"
    by (auto simp: toAssignable_Some_Returned SpreadElement_not_RestElement)
  then show "toAssignableList (xs @ [Some sp]) isBinding contextDescription = Returned zs
         \<longleftrightarrow> (\<exists>ys. zs = ys @ [Some (RestElement (start sp) (nend sp) a)] \<and>
                list_all2 (\<lambda>x y. \<not> isSpreadElement x \<and>
                   toAssignable x isBinding contextDescription = Returned y) xs ys)"
    by (auto simp: toAssignableList_snoc inState_Returned_iff
          toAssignableElements_Returned_iff)
qed

theorem toAssignableList_last_element_witness:
  "toAssignableList
     [Some (Identifier 1 2 ''a''), None, Some (RestElement 5 9 (Identifier 8 9 ''b''))]
     True ''function parameter list''
     = Returned
        [Some (Identifier 1 2 ''a''), None, Some (RestElement 5 9 (Identifier 8 9 ''b''))]
   \<and> toAssignableList
     [Some (ArrayExpression 1 3 []), None, Some (SpreadElement 5 11 (ArrayExpression 8 11 []))]
     True ''function parameter list''
     = Returned
        [Some (ArrayPattern 1 3 []), None, Some (RestElement 5 11 (ArrayPattern 8 11 []))]
   \<and> toAssignableList
     [Some (ArrayExpression 1 3 []), None, Some (SpreadElement 5 11 (ObjectExpression 8 11 []))]
     True ''function parameter list''
     = Thrown (UnexpectedToken 8)
        [Some (ArrayExpression 1 3 []), None, Some (RestElement 5 11 (ObjectPattern 8 11 []))]
   \<and> toAssignableList
     [Some (ArrayExpression 1 3 []), None, Some (SpreadElement 5 11 (MemberExpression 8 11))]
     True ''function parameter list''
     = Thrown (SyntaxError 8 ''Invalid left-hand side in function parameter list'')
        [Some (ArrayExpression 1 3 []), None, Some (RestElement 5 11 (MemberExpression 8 11))]"
proof -
  have conv: "list_all2 (\<lambda>x y. \<not> isSpreadElement x \<and>
                 toAssignable x True ''function parameter list'' = Returned y)
               [Some (ArrayExpression 1 3 []), None] [Some (ArrayPattern 1 3 []), None]"
    and same: "list_all2 (\<lambda>x y. \<not> isSpreadElement x \<and>
                 toAssignable x True ''function parameter list'' = Returned y)
               [Some (Identifier 1 2 ''a''), None] [Some (Identifier 1 2 ''a''), None]"
    by (simp_all add: isSpreadElement_def toAssignable_def)
  have good: "toAssignable (Some (ArrayExpression 8 11 [])) True ''function parameter list''
                = Returned (Some (ArrayPattern 8 11 []))"
    and bad: "toAssignable (Some (ObjectExpression 8 11 [])) True ''function parameter list''
                = Returned (Some (ObjectPattern 8 11 []))"
    and fails: "toAssignable (Some (MemberExpression 8 11)) True ''function parameter list''
                = Thrown (SyntaxError 8 ''Invalid left-hand side in function parameter list'')
                    (Some (MemberExpression 8 11))"
    by (simp_all add: toAssignable_def raise_def invalidLeftHandSide_def)
  note rest = toAssignableList_last_element
    [where r = "RestElement 5 9 (Identifier 8 9 ''b'')"
       and xs = "[Some (Identifier 1 2 ''a''), None]"
       and zs = "[Some (Identifier 1 2 ''a''), None,
                  Some (RestElement 5 9 (Identifier 8 9 ''b''))]"
       and isBinding = True and contextDescription = "''function parameter list''"]
  note spread_good = toAssignableList_last_element
    [where sp = "SpreadElement 5 11 (ArrayExpression 8 11 [])"
       and a = "ArrayPattern 8 11 []"
       and xs = "[Some (ArrayExpression 1 3 []), None]"
       and zs = "[Some (ArrayPattern 1 3 []), None,
                  Some (RestElement 5 11 (ArrayPattern 8 11 []))]"
       and isBinding = True and contextDescription = "''function parameter list''"]
  note spread_bad = toAssignableList_last_element
    [where sp = "SpreadElement 5 11 (ObjectExpression 8 11 [])"
       and a = "ObjectPattern 8 11 []"
       and xs = "[Some (ArrayExpression 1 3 []), None]"
       and isBinding = True and contextDescription = "''function parameter list''"]
  note spread_fails = toAssignableList_last_element
    [where sp = "SpreadElement 5 11 (MemberExpression 8 11)"
       and a = "MemberExpression 8 11"
       and err = "SyntaxError 8 ''Invalid left-hand side in function parameter list''"
       and xs = "[Some (ArrayExpression 1 3 []), None]"
       and isBinding = True and contextDescription = "''function parameter list''"]
  have 1: "toAssignableList
     [Some (Identifier 1 2 ''a''), None, Some (RestElement 5 9 (Identifier 8 9 ''b''))]
     True ''function parameter list''
     = Returned
        [Some (Identifier 1 2 ''a''), None, Some (RestElement 5 9 (Identifier 8 9 ''b''))]"
    using rest same by simp
  have 2: "toAssignableList
     [Some (ArrayExpression 1 3 []), None, Some (SpreadElement 5 11 (ArrayExpression 8 11 []))]
     True ''function parameter list''
     = Returned
        [Some (ArrayPattern 1 3 []), None, Some (RestElement 5 11 (ArrayPattern 8 11 []))]"
    using spread_good conv good by simp
  have 3: "toAssignableList
     [Some (ArrayExpression 1 3 []), None, Some (SpreadElement 5 11 (ObjectExpression 8 11 []))]
     True ''function parameter list''
     = Thrown (UnexpectedToken 8)
        [Some (ArrayExpression 1 3 []), None, Some (RestElement 5 11 (ObjectPattern 8 11 []))]"
    using spread_bad bad by simp
  have 4: "toAssignableList
     [Some (ArrayExpression 1 3 []), None, Some (SpreadElement 5 11 (MemberExpression 8 11))]
     True ''function parameter list''
     = Thrown (SyntaxError 8 ''Invalid left-hand side in function parameter list'')
        [Some (ArrayExpression 1 3 []), None, Some (RestElement 5 11 (MemberExpression 8 11))]"
    using spread_fails fails by simp
  from 1 2 3 4 show ?thesis by blast
qed

section \<open>Validation\<close>

text \<open>
  C4: on a MemberExpression, \<open>checkLVal\<close> throws exactly when \<open>isBinding\<close> is true, and the
  message, "Binding member expression", names the binding context; when \<open>isBinding\<close> is
  false it returns, and in either case the clash map is as it was.
\<close>

theorem checkLVal_MemberExpression:
  "checkLVal crw (MemberExpression s e) isBinding checkClashes contextDescription
     = (if isBinding
        then Thrown (SyntaxError s ''Binding member expression'') checkClashes
        else Returned checkClashes)"
  by (simp add: raise_def)

text \<open>
  C5 (as amended): two Identifier nodes validated one after the other under one clash
  map, the reserved-word check accepting them, where the map does not yet read the key of
  either name (the name after an underscore) as set, by an own flag or through its
  prototype. With the same name, the first validation returns and marks the key, and the
  second throws "Argument name clash in strict mode" at its own start. With different
  names both return, each marking its own key, since different names have different keys.
  An accepted name raises the clash error exactly when the map reads its key as set. A
  map without prototype and without own flags reads no key as set, so there all of this
  holds for every pair of names.
\<close>

theorem checkLVal_Identifier_clashes:
  "(crw x s1 False True = None \<and> \<not> seen m (''_'' @ x) \<longrightarrow>
      checkLVal crw (Identifier s1 e1 x) isBinding (Some m) c1
        = Returned (Some (markSeen m (''_'' @ x)))
      \<and> (crw x s2 False True = None \<longrightarrow>
           checkLVal crw (Identifier s2 e2 x) isBinding (Some (markSeen m (''_'' @ x))) c2
             = Thrown (SyntaxError s2 ''Argument name clash in strict mode'')
                 (Some (markSeen m (''_'' @ x)))))
   \<and> (x \<noteq> y \<and> crw x s1 False True = None \<and> crw y s2 False True = None
        \<and> \<not> seen m (''_'' @ x) \<and> \<not> seen m (''_'' @ y) \<longrightarrow>
      checkLVal crw (Identifier s1 e1 x) isBinding (Some m) c1
        = Returned (Some (markSeen m (''_'' @ x)))
      \<and> checkLVal crw (Identifier s2 e2 y) isBinding (Some (markSeen m (''_'' @ x))) c2
        = Returned (Some (markSeen (markSeen m (''_'' @ x)) (''_'' @ y))))
   \<and> (x \<noteq> y \<longrightarrow> ''_'' @ x \<noteq> ''_'' @ y)
   \<and> (crw x s1 False True = None \<longrightarrow>
        (checkLVal crw (Identifier s1 e1 x) isBinding (Some m) c1
           = Thrown (SyntaxError s1 ''Argument name clash in strict mode'') (Some m))
        = seen m (''_'' @ x))
   \<and> \<not> seen createNull (''_'' @ x)"
proof -
  have after: "seen (markSeen m k) k' = (k' = k \<or> seen m k')" for k k'
    by (simp add: seen_def markSeen_def split: option.splits)
  have fresh: "\<not> seen createNull k" for k
    by (simp add: seen_def createNull_def)
  show ?thesis
    by (auto simp: checkLValName_def raise_def Let_def after fresh)
qed

theorem checkLVal_Identifier_clashes_witness:
  "checkLVal (\<lambda>word pos checkKeywords isBinding. None) (Identifier 11 12 ''a'') True
       (Some createNull) ''function parameter list''
     = Returned (Some (markSeen createNull ''_a''))
   \<and> checkLVal (\<lambda>word pos checkKeywords isBinding. None) (Identifier 14 15 ''a'') True
       (Some (markSeen createNull ''_a'')) ''function parameter list''
     = Thrown (SyntaxError 14 ''Argument name clash in strict mode'')
         (Some (markSeen createNull ''_a''))
   \<and> checkLVal (\<lambda>word pos checkKeywords isBinding. None) (Identifier 14 15 ''b'') True
       (Some (markSeen createNull ''_a'')) ''function parameter list''
     = Returned (Some (markSeen (markSeen createNull ''_a'') ''_b''))
   \<and> \<not> seen createNull ''_a'' \<and> \<not> seen createNull ''_b''
   \<and> seen (markSeen createNull ''_a'') ''_a''"
proof -
  have fresh: "\<not> seen createNull (''_'' @ ''a'')" "\<not> seen createNull (''_'' @ ''b'')"
    by (simp_all add: seen_def createNull_def)
  from fresh checkLVal_Identifier_clashes
    [where crw = "\<lambda>word pos checkKeywords isBinding. None" and x = "''a''" and y = "''b''"
       and m = createNull and ?s1.0 = 11 and ?e1.0 = 12 and ?s2.0 = 14 and ?e2.0 = 15
       and isBinding = True and ?c1.0 = "''function parameter list''"
       and ?c2.0 = "''function parameter list''"]
  show ?thesis by (simp add: seen_def markSeen_def)
qed

text \<open>
  C5 as stated fails: under a map that is an object literal, the parameters \<open>_proto__\<close>
  and \<open>a\<close> of a strict function have different names, but the key of the first,
  \<open>__proto__\<close>, reads the prototype of the map, which is truthy, so its validation throws
  the clash error although no name was seen before.
\<close>

theorem checkLVal_Identifier_clashes_counterexample:
  "checkLVal (\<lambda>word pos checkKeywords isBinding. None) (Identifier 11 19 ''_proto__'') True
       (Some objectLiteral) ''function parameter list''
     = Thrown (SyntaxError 11 ''Argument name clash in strict mode'') (Some objectLiteral)
   \<and> ''_proto__'' \<noteq> ''a''
   \<and> own objectLiteral (''_'' @ ''_proto__'') = None
   \<and> own objectLiteral (''_'' @ ''a'') = None"
  by (simp add: checkLValName_def raise_def seen_def objectLiteral_def objectPrototype_def)

section \<open>Binding identifiers\<close>

text \<open>
  C9: \<open>parseBindingIdentifier\<close> calls \<open>parseIdentifier\<close> with the liberal flag set exactly
  when the current token is the yield keyword, the state is not strict and the parser is
  not inside a generator; at a yield token the flag is the conjunction of the two
  conditions, so it is off as soon as one of them fails.
\<close>

theorem parseBindingIdentifier_yield:
  "parseBindingIdentifier parseIdentifier st
     = parseIdentifier (tokType st = T_yield \<and> \<not> strict st \<and> \<not> inGenerator st) st
   \<and> shouldAllowYieldIdentifier \<lparr>tokType = T_yield, strict = s, inGenerator = g\<rparr>
     = (\<not> s \<and> \<not> g)"
  by (simp add: parseBindingIdentifier_def shouldAllowYieldIdentifier_def match_def)

end
